theory Spec2Isabelle
  imports Main
begin

section \<open>The RequestManager contract (contracts/RequestManager.sol)\<close>

text \<open>
  Solidity values are modelled as natural numbers: an \<open>address\<close> is a 160-bit number with
  \<open>0\<close> for \<open>address(0)\<close>, a \<open>uint256\<close> is a number below \<open>2 ^ 256\<close>. The compiler
  is 0.8.19, so \<open>+\<close>, \<open>*\<close> and \<open>**\<close> on \<open>uint256\<close> revert with \<open>Panic(0x11)\<close> when the
  result does not fit; that check is written out in \<open>checked_mul\<close> and \<open>checked_pow\<close>.
  The only unchecked arithmetic is the counter increment of OpenZeppelin's \<open>Counters\<close>,
  whose wrap-around is written out in \<open>increment\<close>.
\<close>

type_synonym address = nat
type_synonym uint256 = nat
type_synonym bytes32 = nat

definition UINT256_LIMIT :: nat where
  "UINT256_LIMIT = 2 ^ 256"

datatype error = Revert string | Panic nat

datatype RequestStatus = PENDING | PAID | CANCELLED | EXPIRED

record Request =
  id_req :: uint256
  creator :: address
  recipientXRPL :: string
  assetSymbol :: string
  assetAmount :: uint256
  expiry :: uint256
  slippageBp :: nat
  status :: RequestStatus
  paidTxHash :: bytes32
  paidAmount :: uint256
  paidTimestamp :: uint256
  message :: string

text \<open>A storage slot of \<open>requests\<close> that was never written reads as the zero value of
  every field; the zero value of the enum is its first member, \<open>PENDING\<close>.\<close>

definition zeroRequest :: Request where
  "zeroRequest = \<lparr> id_req = 0, creator = 0, recipientXRPL = [], assetSymbol = [],
     assetAmount = 0, expiry = 0, slippageBp = 0, status = PENDING, paidTxHash = 0,
     paidAmount = 0, paidTimestamp = 0, message = [] \<rparr>"

text \<open>What a call sees of its surroundings: \<open>msg.sender\<close>, \<open>block.timestamp\<close> and the
  answer of the external FTSO registry contract at a given address to
  \<open>getCurrentPriceWithDecimals\<close> (price, timestamp, decimals), or the revert it raises.\<close>

record call_context =
  msg_sender :: address
  block_timestamp :: uint256
  getCurrentPriceWithDecimals :: "address \<Rightarrow> string \<Rightarrow> error + (uint256 \<times> uint256 \<times> uint256)"

record RequestManager =
  owner :: address
  requestIds :: uint256
  ftsoRegistry :: address
  requests :: "uint256 \<Rightarrow> Request"
  userRequests :: "address \<Rightarrow> uint256 list"
  supportedAssets :: "string \<Rightarrow> bool"
  authorizedAttestors :: "address \<Rightarrow> bool"

definition checked_mul :: "uint256 \<Rightarrow> uint256 \<Rightarrow> error + uint256" where
  "checked_mul a b = (if a * b < UINT256_LIMIT then Inr (a * b) else Inl (Panic 17))"

definition checked_pow :: "uint256 \<Rightarrow> uint256 \<Rightarrow> error + uint256" where
  "checked_pow a b = (if a ^ b < UINT256_LIMIT then Inr (a ^ b) else Inl (Panic 17))"

definition checked_sub :: "uint256 \<Rightarrow> uint256 \<Rightarrow> error + uint256" where
  "checked_sub a b = (if b \<le> a then Inr (a - b) else Inl (Panic 17))"

definition checked_div :: "uint256 \<Rightarrow> uint256 \<Rightarrow> error + uint256" where
  "checked_div a b = (if b = 0 then Inl (Panic 18) else Inr (a div b))"

text \<open>\<open>Counters.increment\<close>: \<open>unchecked { counter._value += 1; }\<close>.\<close>

definition increment :: "uint256 \<Rightarrow> uint256" where
  "increment c = (c + 1) mod UINT256_LIMIT"

text \<open>The constructor; \<open>Ownable\<close> makes the deployer the owner.\<close>

definition constructor :: "call_context \<Rightarrow> address \<Rightarrow> RequestManager" where
  "constructor ctx ftsoRegistry_arg =
     \<lparr> owner = msg_sender ctx,
       requestIds = 0,
       ftsoRegistry = ftsoRegistry_arg,
       requests = (\<lambda>_. zeroRequest),
       userRequests = (\<lambda>_. []),
       supportedAssets = (\<lambda>s. s = ''ETH'' \<or> s = ''XRP'' \<or> s = ''BTC'' \<or> s = ''USDT'' \<or> s = ''USDC''),
       authorizedAttestors = (\<lambda>_. False) \<rparr>"

text \<open>The modifier \<open>validRequest\<close>: the error it raises, if any.\<close>

definition validRequest :: "RequestManager \<Rightarrow> uint256 \<Rightarrow> error option" where
  "validRequest s requestId =
     (if \<not> requestId \<le> requestIds s then Some (Revert ''Invalid request ID'')
      else if \<not> creator (requests s requestId) \<noteq> 0 then Some (Revert ''Request does not exist'')
      else None)"

definition createRequest ::
  "call_context \<Rightarrow> string \<Rightarrow> string \<Rightarrow> uint256 \<Rightarrow> uint256 \<Rightarrow> nat \<Rightarrow> string \<Rightarrow> RequestManager
     \<Rightarrow> error + (RequestManager \<times> uint256)" where
  "createRequest ctx recipient symbol amount expiry_arg slippage msg s =
     (if \<not> length recipient > 0 then Inl (Revert ''Invalid recipient XRPL address'')
      else if \<not> supportedAssets s symbol then Inl (Revert ''Asset not supported'')
      else if \<not> amount > 0 then Inl (Revert ''Amount must be greater than 0'')
      else if \<not> expiry_arg > block_timestamp ctx then Inl (Revert ''Expiry must be in the future'')
      else if \<not> slippage \<le> 1000 then Inl (Revert ''Slippage cannot exceed 10%'')
      else
        let newRequestId = increment (requestIds s);
            newRequest = (requests s newRequestId)
              \<lparr> id_req := newRequestId,
                creator := msg_sender ctx,
                recipientXRPL := recipient,
                assetSymbol := symbol,
                assetAmount := amount,
                expiry := expiry_arg,
                slippageBp := slippage,
                status := PENDING,
                message := msg \<rparr>
        in Inr (s \<lparr> requestIds := newRequestId,
                    requests := (requests s)(newRequestId := newRequest),
                    userRequests := (userRequests s)
                      (msg_sender ctx := userRequests s (msg_sender ctx) @ [newRequestId]) \<rparr>,
                newRequestId))"

text \<open>The comparison of the two \<open>keccak256\<close> digests is modelled as equality of the
  strings.\<close>

definition calculateXRPAmount ::
  "call_context \<Rightarrow> RequestManager \<Rightarrow> string \<Rightarrow> uint256 \<Rightarrow> error + uint256" where
  "calculateXRPAmount ctx s symbol amount =
     (if symbol = ''XRP'' then Inr amount
      else
        case getCurrentPriceWithDecimals ctx (ftsoRegistry s) symbol of
          Inl e \<Rightarrow> Inl e
        | Inr (assetPrice, _, assetDecimals) \<Rightarrow>
        case getCurrentPriceWithDecimals ctx (ftsoRegistry s) ''XRP'' of
          Inl e \<Rightarrow> Inl e
        | Inr (xrpPrice, _, xrpDecimals) \<Rightarrow>
        if \<not> (assetPrice > 0 \<and> xrpPrice > 0) then Inl (Revert ''Invalid price data'')
        else
          case checked_mul amount assetPrice of Inl e \<Rightarrow> Inl e | Inr p1 \<Rightarrow>
          case checked_pow 10 xrpDecimals of Inl e \<Rightarrow> Inl e | Inr p2 \<Rightarrow>
          case checked_mul p1 p2 of Inl e \<Rightarrow> Inl e | Inr numerator \<Rightarrow>
          case checked_pow 10 assetDecimals of Inl e \<Rightarrow> Inl e | Inr p3 \<Rightarrow>
          case checked_mul xrpPrice p3 of Inl e \<Rightarrow> Inl e | Inr denominator \<Rightarrow>
          checked_div numerator denominator)"

text \<open>\<open>nonReentrant\<close> is left out: the body makes no call that could re-enter (the
  registry is read through a view function), and the guard restores its flag on exit.
  Events are not part of the state.\<close>

definition submitPaymentAttestation ::
  "call_context \<Rightarrow> uint256 \<Rightarrow> bytes32 \<Rightarrow> uint256 \<Rightarrow> uint256 \<Rightarrow> RequestManager
     \<Rightarrow> error + RequestManager" where
  "submitPaymentAttestation ctx requestId txHash paidAmountXRP timestamp s =
     (if \<not> authorizedAttestors s (msg_sender ctx) then Inl (Revert ''Not authorized attestor'')
      else case validRequest s requestId of Some e \<Rightarrow> Inl e | None \<Rightarrow>
        let request = requests s requestId in
        if \<not> status request = PENDING then Inl (Revert ''Request not pending'')
        else if \<not> block_timestamp ctx \<le> expiry request then Inl (Revert ''Request expired'')
        else if \<not> timestamp \<le> block_timestamp ctx then Inl (Revert ''Future timestamp not allowed'')
        else
          case calculateXRPAmount ctx s (assetSymbol request) (assetAmount request) of
            Inl e \<Rightarrow> Inl e
          | Inr requiredXRP \<Rightarrow>
          case checked_sub 10000 (slippageBp request) of Inl e \<Rightarrow> Inl e | Inr factor \<Rightarrow>
          case checked_mul requiredXRP factor of Inl e \<Rightarrow> Inl e | Inr scaled \<Rightarrow>
          let minAcceptableAmount = scaled div 10000 in
          if \<not> paidAmountXRP \<ge> minAcceptableAmount then Inl (Revert ''Insufficient payment amount'')
          else Inr (s \<lparr> requests := (requests s)(requestId := request
                 \<lparr> status := PAID,
                   paidTxHash := txHash,
                   paidAmount := paidAmountXRP,
                   paidTimestamp := timestamp \<rparr>) \<rparr>))"

definition cancelRequest :: "call_context \<Rightarrow> uint256 \<Rightarrow> RequestManager \<Rightarrow> error + RequestManager" where
  "cancelRequest ctx requestId s =
     (case validRequest s requestId of Some e \<Rightarrow> Inl e | None \<Rightarrow>
        let request = requests s requestId in
        if \<not> creator request = msg_sender ctx then Inl (Revert ''Only creator can cancel'')
        else if \<not> status request = PENDING then Inl (Revert ''Can only cancel pending requests'')
        else Inr (s \<lparr> requests := (requests s)(requestId := request \<lparr> status := CANCELLED \<rparr>) \<rparr>))"

definition markExpired :: "call_context \<Rightarrow> uint256 \<Rightarrow> RequestManager \<Rightarrow> error + RequestManager" where
  "markExpired ctx requestId s =
     (case validRequest s requestId of Some e \<Rightarrow> Inl e | None \<Rightarrow>
        let request = requests s requestId in
        if \<not> status request = PENDING then Inl (Revert ''Request not pending'')
        else if \<not> block_timestamp ctx > expiry request then Inl (Revert ''Request not yet expired'')
        else Inr (s \<lparr> requests := (requests s)(requestId := request \<lparr> status := EXPIRED \<rparr>) \<rparr>))"

definition getRequest :: "RequestManager \<Rightarrow> uint256 \<Rightarrow> error + Request" where
  "getRequest s requestId =
     (case validRequest s requestId of Some e \<Rightarrow> Inl e | None \<Rightarrow> Inr (requests s requestId))"

definition getTotalRequests :: "RequestManager \<Rightarrow> uint256" where
  "getTotalRequests s = requestIds s"

text \<open>The owner-gated functions; \<open>onlyOwner\<close> is OpenZeppelin's modifier.\<close>

definition onlyOwner :: "call_context \<Rightarrow> RequestManager \<Rightarrow> RequestManager \<Rightarrow> error + RequestManager" where
  "onlyOwner ctx s s' =
     (if owner s = msg_sender ctx then Inr s' else Inl (Revert ''Ownable: caller is not the owner''))"

definition addAuthorizedAttestor :: "call_context \<Rightarrow> address \<Rightarrow> RequestManager \<Rightarrow> error + RequestManager" where
  "addAuthorizedAttestor ctx attestor s =
     onlyOwner ctx s (s \<lparr> authorizedAttestors := (authorizedAttestors s)(attestor := True) \<rparr>)"

definition removeAuthorizedAttestor :: "call_context \<Rightarrow> address \<Rightarrow> RequestManager \<Rightarrow> error + RequestManager" where
  "removeAuthorizedAttestor ctx attestor s =
     onlyOwner ctx s (s \<lparr> authorizedAttestors := (authorizedAttestors s)(attestor := False) \<rparr>)"

definition addSupportedAsset :: "call_context \<Rightarrow> string \<Rightarrow> RequestManager \<Rightarrow> error + RequestManager" where
  "addSupportedAsset ctx symbol s =
     onlyOwner ctx s (s \<lparr> supportedAssets := (supportedAssets s)(symbol := True) \<rparr>)"

definition removeSupportedAsset :: "call_context \<Rightarrow> string \<Rightarrow> RequestManager \<Rightarrow> error + RequestManager" where
  "removeSupportedAsset ctx symbol s =
     onlyOwner ctx s (s \<lparr> supportedAssets := (supportedAssets s)(symbol := False) \<rparr>)"

definition updateFtsoRegistry :: "call_context \<Rightarrow> address \<Rightarrow> RequestManager \<Rightarrow> error + RequestManager" where
  "updateFtsoRegistry ctx newRegistry s =
     onlyOwner ctx s (s \<lparr> ftsoRegistry := newRegistry \<rparr>)"

subsection \<open>Sequences of transactions\<close>

text \<open>A transaction is one external call of a state-changing function. A transaction
  that reverts leaves the contract state as it was.\<close>

datatype call =
    CreateRequest string string uint256 uint256 nat string
  | SubmitPaymentAttestation uint256 bytes32 uint256 uint256
  | CancelRequest uint256
  | MarkExpired uint256
  | AddAuthorizedAttestor address
  | RemoveAuthorizedAttestor address
  | AddSupportedAsset string
  | RemoveSupportedAsset string
  | UpdateFtsoRegistry address

fun exec_call :: "call_context \<Rightarrow> call \<Rightarrow> RequestManager \<Rightarrow> error + RequestManager" where
  "exec_call ctx (CreateRequest r a n e b m) s = map_sum (\<lambda>e. e) fst (createRequest ctx r a n e b m s)"
| "exec_call ctx (SubmitPaymentAttestation i h p t) s = submitPaymentAttestation ctx i h p t s"
| "exec_call ctx (CancelRequest i) s = cancelRequest ctx i s"
| "exec_call ctx (MarkExpired i) s = markExpired ctx i s"
| "exec_call ctx (AddAuthorizedAttestor a) s = addAuthorizedAttestor ctx a s"
| "exec_call ctx (RemoveAuthorizedAttestor a) s = removeAuthorizedAttestor ctx a s"
| "exec_call ctx (AddSupportedAsset a) s = addSupportedAsset ctx a s"
| "exec_call ctx (RemoveSupportedAsset a) s = removeSupportedAsset ctx a s"
| "exec_call ctx (UpdateFtsoRegistry a) s = updateFtsoRegistry ctx a s"

definition transact :: "call_context \<Rightarrow> call \<Rightarrow> RequestManager \<Rightarrow> RequestManager" where
  "transact ctx c s = (case exec_call ctx c s of Inl _ \<Rightarrow> s | Inr s' \<Rightarrow> s')"

fun run :: "(call_context \<times> call) list \<Rightarrow> RequestManager \<Rightarrow> RequestManager" where
  "run [] s = s"
| "run ((ctx, c) # cs) s = run cs (transact ctx c s)"

fun is_create :: "call \<Rightarrow> bool" where
  "is_create (CreateRequest _ _ _ _ _ _) = True"
| "is_create _ = False"

fun is_status_call :: "call \<Rightarrow> bool" where
  "is_status_call (SubmitPaymentAttestation _ _ _ _) = True"
| "is_status_call (CancelRequest _) = True"
| "is_status_call (MarkExpired _) = True"
| "is_status_call _ = False"

text \<open>The number of \<open>createRequest\<close> transactions of a sequence that succeed.\<close>

fun created :: "(call_context \<times> call) list \<Rightarrow> RequestManager \<Rightarrow> nat" where
  "created [] s = 0"
| "created ((ctx, c) # cs) s =
     (if is_create c \<and> isl (exec_call ctx c s) = False then 1 else 0) + created cs (transact ctx c s)"

subsection \<open>The mock registry (contracts/MockFtsoRegistry.sol)\<close>

text \<open>The registry used for local testing: a table of prices in USD with five decimals,
  and a read that reverts when the stored price is zero.\<close>

record PriceData =
  price :: uint256
  decimals :: uint256
  timestamp :: uint256

definition MockFtsoRegistry :: "uint256 \<Rightarrow> string \<Rightarrow> PriceData" where
  "MockFtsoRegistry deployed =
     ((\<lambda>_. \<lparr> price = 0, decimals = 0, timestamp = 0 \<rparr>)
        (''ETH'' := \<lparr> price = 200000000, decimals = 5, timestamp = deployed \<rparr>,
         ''XRP'' := \<lparr> price = 50000, decimals = 5, timestamp = deployed \<rparr>,
         ''BTC'' := \<lparr> price = 4500000000, decimals = 5, timestamp = deployed \<rparr>,
         ''USDT'' := \<lparr> price = 100000, decimals = 5, timestamp = deployed \<rparr>,
         ''USDC'' := \<lparr> price = 100000, decimals = 5, timestamp = deployed \<rparr>))"

definition mock_getCurrentPriceWithDecimals ::
  "(string \<Rightarrow> PriceData) \<Rightarrow> string \<Rightarrow> error + (uint256 \<times> uint256 \<times> uint256)" where
  "mock_getCurrentPriceWithDecimals prices symbol =
     (let d = prices symbol in
      if \<not> price d > 0 then Inl (Revert ''Price not available'')
      else Inr (price d, timestamp d, decimals d))"

definition mock_context :: "address \<Rightarrow> uint256 \<Rightarrow> call_context" where
  "mock_context sender now =
     \<lparr> msg_sender = sender, block_timestamp = now,
       getCurrentPriceWithDecimals = (\<lambda>_. mock_getCurrentPriceWithDecimals (MockFtsoRegistry 0)) \<rparr>"

subsection \<open>A small deployment used for concrete evaluation\<close>

text \<open>Account 1 deploys the contract with the mock registry at address 99, authorises
  account 7 as attestor, and accounts 200 and 201 create three requests denominated in XRP
  (amounts in drops).\<close>

definition deployed :: RequestManager where
  "deployed = constructor (mock_context 1 0) 99"

definition setup_calls :: "(call_context \<times> call) list" where
  "setup_calls =
     [(mock_context 1 5, AddAuthorizedAttestor 7),
      (mock_context 200 10, CreateRequest ''rXYZ'' ''XRP'' 1000000000 5000 100 ''first''),
      (mock_context 200 11, CreateRequest ''rXYZ'' ''XRP'' 1000000000 5000 100 ''second''),
      (mock_context 201 12, CreateRequest ''rABC'' ''XRP'' 250 50 0 ''third'')]"

definition later_calls :: "(call_context \<times> call) list" where
  "later_calls =
     [(mock_context 7 101, SubmitPaymentAttestation 1 777 1000000000 95),
      (mock_context 200 102, CancelRequest 1),
      (mock_context 5 6000, MarkExpired 1)]"

section \<open>The attestor service (attestor/src/index.js)\<close>

text \<open>
  The service talks to the ledger through the \<open>xrpl\<close> client and to the chain through an
  \<open>ethers\<close> contract object. What those calls return is the environment of the model: each
  call either yields a value or throws, and the environment gives the message of what it
  throws. An exception raised by a client library is a \<open>ClientError\<close>; \<open>Error\<close> is an
  exception this code raises itself with \<open>new Error(...)\<close>.
  Numbers that the code obtains with \<open>toNumber()\<close> or reads from a decoded \<open>uint8\<close> field
  are natural numbers.
\<close>

text \<open>
  The values that meet in \<open>tx.Amount === request.assetAmount\<close>. The ledger client gives the
  amount of a payment as a string of drops when it is in XRP, and as an object with the
  fields \<open>currency\<close>, \<open>issuer\<close> and \<open>value\<close> otherwise. The contract object gives a
  decoded \<open>uint256\<close> field as a \<open>BigNumber\<close> object.
\<close>

datatype js_value =
    JSString string
  | JSCurrencyAmount string string string
  | JSBigNumber uint256

text \<open>
  \<open>===\<close> converts neither operand. Two strings are strictly equal when they have the same
  characters; a string is never strictly equal to an object; two objects are strictly equal
  only when they are one and the same object. The amount object of a transaction is built by
  the ledger client and the \<open>BigNumber\<close> of a request by the contract object, each for the
  reply it decodes, so two objects that meet in a comparison of this service are never the
  same object.
\<close>

fun strict_equals :: "js_value \<Rightarrow> js_value \<Rightarrow> bool" where
  "strict_equals (JSString a) (JSString b) = (a = b)"
| "strict_equals _ _ = False"

datatype js_error = Error string | ClientError string

record config =
  privateKey :: "string option"
  requestManagerAddress :: "string option"
  batchSize :: int

record xrpl_tx =
  hash :: string
  TransactionType :: string
  Destination :: string
  Amount :: js_value
  date :: nat

text \<open>One call of \<open>contract.submitPaymentAttestation\<close> made by the service: its four
  arguments and whether the call (sending and waiting for the receipt) threw.\<close>

record attestation =
  att_requestId :: nat
  att_txHash :: string
  att_amount :: js_value
  att_timestamp :: nat
  att_failure :: "string option"

record environment =
  xrpl_connect :: "string option"
  server_info :: "string + nat"
  ledger :: "nat \<Rightarrow> string + xrpl_tx list option"
  ethers_connect :: "string \<Rightarrow> string \<Rightarrow> string option"
  contract_getTotalRequests :: "string + nat"
  contract_getRequest :: "nat \<Rightarrow> string + Request"
  contract_submitPaymentAttestation :: "nat \<Rightarrow> string \<Rightarrow> js_value \<Rightarrow> nat \<Rightarrow> string option"

text \<open>The fields of \<open>VenmorphAttestor\<close>. \<open>pendingRequests\<close> is a JavaScript \<open>Map\<close>, kept as
  the list of its entries in insertion order; \<open>submitted\<close> is not a field of the class but
  the trace of the attestation calls made so far.\<close>

record attestor =
  wallet :: "string option"
  requestManagerContract :: "string option"
  isRunning :: bool
  lastProcessedLedger :: "nat option"
  pendingRequests :: "(nat \<times> Request) list"
  processedTransactions :: "string set"
  submitted :: "attestation list"

definition new_attestor :: attestor where
  "new_attestor = \<lparr> wallet = None, requestManagerContract = None, isRunning = False,
     lastProcessedLedger = None, pendingRequests = [], processedTransactions = {},
     submitted = [] \<rparr>"

text \<open>\<open>Map.prototype.set\<close> and \<open>Map.prototype.delete\<close>.\<close>

fun Map_set :: "nat \<Rightarrow> 'v \<Rightarrow> (nat \<times> 'v) list \<Rightarrow> (nat \<times> 'v) list" where
  "Map_set k v [] = [(k, v)]"
| "Map_set k v ((k', v') # rest) = (if k' = k then (k, v) # rest else (k', v') # Map_set k v rest)"

definition Map_delete :: "nat \<Rightarrow> (nat \<times> 'v) list \<Rightarrow> (nat \<times> 'v) list" where
  "Map_delete k entries = filter (\<lambda>e. fst e \<noteq> k) entries"

text \<open>The ABI encodes a value of the enum \<open>RequestStatus\<close> as the index of the member in
  the declaration \<open>enum RequestStatus { PENDING, PAID, CANCELLED, EXPIRED }\<close>; this is the
  number the service reads as \<open>request.status\<close>.\<close>

fun status_code :: "RequestStatus \<Rightarrow> nat" where
  "status_code PENDING = 0"
| "status_code PAID = 1"
| "status_code CANCELLED = 2"
| "status_code EXPIRED = 3"

text \<open>A configuration value read from \<open>process.env\<close> is falsy when it is undefined or the
  empty string.\<close>

fun falsy :: "string option \<Rightarrow> bool" where
  "falsy None = True"
| "falsy (Some v) = (v = [])"

definition initializeXRPL :: "environment \<Rightarrow> attestor \<Rightarrow> js_error + attestor" where
  "initializeXRPL env a =
     (case xrpl_connect env of Some e \<Rightarrow> Inl (ClientError e) | None \<Rightarrow>
      case server_info env of Inl e \<Rightarrow> Inl (ClientError e) | Inr seq \<Rightarrow>
        Inr (a \<lparr> lastProcessedLedger := Some seq \<rparr>))"

definition initializeFlare :: "config \<Rightarrow> environment \<Rightarrow> attestor \<Rightarrow> js_error + attestor" where
  "initializeFlare cfg env a =
     (if falsy (privateKey cfg)
        then Inl (Error ''ATTESTOR_PRIVATE_KEY environment variable is required'')
      else if falsy (requestManagerAddress cfg)
        then Inl (Error ''REQUEST_MANAGER_ADDRESS environment variable is required'')
      else
        case (privateKey cfg, requestManagerAddress cfg) of
          (Some key, Some addr) \<Rightarrow>
            (case ethers_connect env key addr of
               Some e \<Rightarrow> Inl (ClientError e)
             | None \<Rightarrow> Inr (a \<lparr> wallet := Some key, requestManagerContract := Some addr \<rparr>))
        | _ \<Rightarrow> Inl (Error ''ATTESTOR_PRIVATE_KEY environment variable is required''))"

text \<open>(The last case of \<open>initializeFlare\<close> cannot occur: a value that is not falsy is
  defined.)\<close>

text \<open>The body shared by the two loop statements that read requests from the contract (they differ only in
  the text they log): a request whose decoded status equals 1 is stored under the loop index;
  a failed read is logged and skipped.\<close>

definition load_request :: "environment \<Rightarrow> nat \<Rightarrow> (nat \<times> Request) list \<Rightarrow> (nat \<times> Request) list" where
  "load_request env i cache =
     (case contract_getRequest env i of
        Inl e \<Rightarrow> cache
      | Inr request \<Rightarrow> if status_code (status request) = 1 then Map_set i request cache else cache)"

text \<open>\<open>for (let i = start; i < stop; i++) { ... }\<close>\<close>

function load_loop :: "environment \<Rightarrow> nat \<Rightarrow> nat \<Rightarrow> (nat \<times> Request) list \<Rightarrow> (nat \<times> Request) list" where
  "load_loop env i stop cache =
     (if i < stop then load_loop env (Suc i) stop (load_request env i cache) else cache)"
  by pat_completeness auto
termination
  by (relation "measure (\<lambda>(env, i, stop, cache). stop - i)") auto

definition loadPendingRequests :: "config \<Rightarrow> environment \<Rightarrow> attestor \<Rightarrow> js_error + attestor" where
  "loadPendingRequests cfg env a =
     (case contract_getTotalRequests env of
        Inl e \<Rightarrow> Inl (ClientError e)
      | Inr totalRequests \<Rightarrow>
          let batch = min (batchSize cfg) (int totalRequests);
              start = nat (max 0 (int totalRequests - batch))
          in Inr (a \<lparr> pendingRequests := load_loop env start totalRequests (pendingRequests a) \<rparr>))"

definition initialize :: "config \<Rightarrow> environment \<Rightarrow> attestor \<Rightarrow> js_error + attestor" where
  "initialize cfg env a =
     (case initializeXRPL env a of Inl e \<Rightarrow> Inl e | Inr a1 \<Rightarrow>
      case initializeFlare cfg env a1 of Inl e \<Rightarrow> Inl e | Inr a2 \<Rightarrow>
      loadPendingRequests cfg env a2)"

text \<open>\<open>start\<close> either leaves the service running with its two timers installed, or ends the
  process with \<open>process.exit(1)\<close>.\<close>

datatype process = Exited nat | Running attestor

definition start :: "config \<Rightarrow> environment \<Rightarrow> attestor \<Rightarrow> process" where
  "start cfg env a =
     (case initialize cfg env a of
        Inl e \<Rightarrow> Exited 1
      | Inr a' \<Rightarrow> Running (a' \<lparr> isRunning := True \<rparr>))"

text \<open>One run of the timer callback installed by \<open>startRequestMonitoring\<close>.\<close>

definition requestMonitoringTick :: "environment \<Rightarrow> attestor \<Rightarrow> attestor" where
  "requestMonitoringTick env a =
     (if \<not> isRunning a then a
      else case contract_getTotalRequests env of
        Inl e \<Rightarrow> a
      | Inr currentCount \<Rightarrow>
          a \<lparr> pendingRequests :=
                load_loop env (length (pendingRequests a)) currentCount (pendingRequests a) \<rparr>)"

text \<open>A cached request is the tuple that \<open>getRequest\<close> returned, so its \<open>assetAmount\<close> is
  the \<open>BigNumber\<close> decoded from the contract's \<open>uint256\<close>.\<close>

definition matchesRequest :: "xrpl_tx \<Rightarrow> Request \<Rightarrow> bool" where
  "matchesRequest tx request =
     (Destination tx = recipientXRPL request \<and>
      strict_equals (Amount tx) (JSBigNumber (assetAmount request)))"

text \<open>\<open>submitAttestation\<close> catches whatever the contract call throws and only logs it, so it
  returns normally in both cases.\<close>

definition submitAttestation ::
  "environment \<Rightarrow> nat \<Rightarrow> string \<Rightarrow> js_value \<Rightarrow> nat \<Rightarrow> attestor \<Rightarrow> attestor" where
  "submitAttestation env requestId txHash amount timestamp_arg a =
     a \<lparr> submitted := submitted a @
           [\<lparr> att_requestId = requestId, att_txHash = txHash, att_amount = amount,
              att_timestamp = timestamp_arg,
              att_failure = contract_submitPaymentAttestation env requestId txHash amount timestamp_arg \<rparr>] \<rparr>"

text \<open>The \<open>for ... of\<close> loop over the entries of \<open>pendingRequests\<close>. The body deletes only the
  entry it is visiting, so the loop visits the entries the map held when it started.\<close>

fun check_entries :: "environment \<Rightarrow> xrpl_tx \<Rightarrow> (nat \<times> Request) list \<Rightarrow> attestor \<Rightarrow> attestor" where
  "check_entries env tx [] a = a"
| "check_entries env tx ((requestId, request) # rest) a =
     check_entries env tx rest
       (if matchesRequest tx request then
          (let a' = submitAttestation env requestId (hash tx) (Amount tx) (date tx) a
           in a' \<lparr> pendingRequests := Map_delete requestId (pendingRequests a') \<rparr>)
        else a)"

definition checkPaymentTransaction :: "environment \<Rightarrow> xrpl_tx \<Rightarrow> attestor \<Rightarrow> attestor" where
  "checkPaymentTransaction env tx a = check_entries env tx (pendingRequests a) a"

definition processTransaction :: "environment \<Rightarrow> xrpl_tx \<Rightarrow> attestor \<Rightarrow> attestor" where
  "processTransaction env tx a =
     (if hash tx \<in> processedTransactions a then a
      else
        let a' = (if TransactionType tx = ''Payment'' then checkPaymentTransaction env tx a else a)
        in a' \<lparr> processedTransactions := insert (hash tx) (processedTransactions a') \<rparr>)"

fun process_transactions :: "environment \<Rightarrow> xrpl_tx list \<Rightarrow> attestor \<Rightarrow> attestor" where
  "process_transactions env [] a = a"
| "process_transactions env (tx # txs) a = process_transactions env txs (processTransaction env tx a)"

definition processLedger :: "environment \<Rightarrow> nat \<Rightarrow> attestor \<Rightarrow> attestor" where
  "processLedger env ledgerIndex a =
     (case ledger env ledgerIndex of
        Inl e \<Rightarrow> a
      | Inr None \<Rightarrow> a
      | Inr (Some transactions) \<Rightarrow> process_transactions env transactions a)"

text \<open>\<open>for (let ledger = first; ledger <= currentLedger; ledger++) { ... }\<close>\<close>

function process_ledgers :: "environment \<Rightarrow> nat \<Rightarrow> nat \<Rightarrow> attestor \<Rightarrow> attestor" where
  "process_ledgers env l currentLedger a =
     (if l \<le> currentLedger then process_ledgers env (Suc l) currentLedger (processLedger env l a)
      else a)"
  by pat_completeness auto
termination
  by (relation "measure (\<lambda>(env, l, currentLedger, a). Suc currentLedger - l)") auto

text \<open>In \<open>this.lastProcessedLedger && currentLedger > this.lastProcessedLedger\<close> the left
  operand is falsy when it is \<open>null\<close> or \<open>0\<close>.\<close>

definition checkXRPLTransactions :: "environment \<Rightarrow> attestor \<Rightarrow> attestor" where
  "checkXRPLTransactions env a =
     (case server_info env of
        Inl e \<Rightarrow> a
      | Inr currentLedger \<Rightarrow>
          let a' = (case lastProcessedLedger a of
                      None \<Rightarrow> a
                    | Some last_seq \<Rightarrow>
                        if last_seq \<noteq> 0 \<and> currentLedger > last_seq
                        then process_ledgers env (last_seq + 1) currentLedger a
                        else a)
          in a' \<lparr> lastProcessedLedger := Some currentLedger \<rparr>)"

text \<open>One run of the timer callback installed by \<open>startXRPLMonitoring\<close>.\<close>

definition xrplMonitoringTick :: "environment \<Rightarrow> attestor \<Rightarrow> attestor" where
  "xrplMonitoringTick env a = (if \<not> isRunning a then a else checkXRPLTransactions env a)"

subsection \<open>The matcher the specification asks for\<close>

text \<open>The smallest payment the contract accepts for a request, as \<open>submitPaymentAttestation\<close>
  computes it: the price-converted amount with the slippage tolerance applied.\<close>

definition minAcceptableAmount :: "call_context \<Rightarrow> RequestManager \<Rightarrow> Request \<Rightarrow> error + uint256" where
  "minAcceptableAmount ctx s request =
     (case calculateXRPAmount ctx s (assetSymbol request) (assetAmount request) of
        Inl e \<Rightarrow> Inl e
      | Inr requiredXRP \<Rightarrow>
      case checked_sub 10000 (slippageBp request) of Inl e \<Rightarrow> Inl e | Inr factor \<Rightarrow>
      case checked_mul requiredXRP factor of Inl e \<Rightarrow> Inl e | Inr scaled \<Rightarrow>
      Inr (scaled div 10000))"

text \<open>The number of drops that an amount in XRP denotes: the value of its string of decimal
  digits. An amount in an issued currency is not a number of drops.\<close>

fun position :: "char \<Rightarrow> string \<Rightarrow> nat option" where
  "position c [] = None"
| "position c (d # ds) = (if c = d then Some 0 else map_option Suc (position c ds))"

definition digit_value :: "char \<Rightarrow> nat option" where
  "digit_value c = position c ''0123456789''"

fun decimal_value :: "nat \<Rightarrow> string \<Rightarrow> nat option" where
  "decimal_value acc [] = Some acc"
| "decimal_value acc (c # cs) =
     (case digit_value c of None \<Rightarrow> None | Some d \<Rightarrow> decimal_value (10 * acc + d) cs)"

fun drops_of :: "js_value \<Rightarrow> nat option" where
  "drops_of (JSString digits) = (if digits = [] then None else decimal_value 0 digits)"
| "drops_of _ = None"

text \<open>The matching predicate in the words of the specification: the destination is the
  request's recipient address and the amount satisfies the required amount, computed with the
  contract's conversion and slippage formula when the match is evaluated.\<close>

definition matchesRequest_spec :: "call_context \<Rightarrow> RequestManager \<Rightarrow> xrpl_tx \<Rightarrow> Request \<Rightarrow> bool" where
  "matchesRequest_spec ctx s tx request =
     (Destination tx = recipientXRPL request \<and>
      (case minAcceptableAmount ctx s request of
         Inl e \<Rightarrow> False
       | Inr m \<Rightarrow> (case drops_of (Amount tx) of None \<Rightarrow> False | Some paid \<Rightarrow> paid \<ge> m)))"

subsection \<open>Environments and inputs used for concrete evaluation\<close>

text \<open>The chain as the service reads it when the contract is in state \<open>s\<close>; a revert of
  \<open>getRequest\<close> surfaces as an exception of the client. The outcome of an attestation call
  is the parameter \<open>outcome\<close>.\<close>

definition chain_environment :: "RequestManager \<Rightarrow> string option \<Rightarrow> environment" where
  "chain_environment s outcome =
     \<lparr> xrpl_connect = None,
       server_info = Inr 100,
       ledger = (\<lambda>_. Inr None),
       ethers_connect = (\<lambda>_ _. None),
       contract_getTotalRequests = Inr (getTotalRequests s),
       contract_getRequest = (\<lambda>i. case getRequest s i of
           Inl (Revert reason) \<Rightarrow> Inl reason
         | Inl (Panic code) \<Rightarrow> Inl ''panic''
         | Inr request \<Rightarrow> Inr request),
       contract_submitPaymentAttestation = (\<lambda>_ _ _ _. outcome) \<rparr>"

definition paid_calls :: "(call_context \<times> call) list" where
  "paid_calls = setup_calls @ [(mock_context 7 100, SubmitPaymentAttestation 1 12345 990000000 90)]"

definition test_config :: config where
  "test_config = \<lparr> privateKey = Some ''0xkey'', requestManagerAddress = Some ''0xaddr'',
     batchSize = 10 \<rparr>"

text \<open>A payment in XRP to the address \<open>rXYZ\<close>, with its hash and its amount in drops.\<close>

definition payment :: "string \<Rightarrow> string \<Rightarrow> xrpl_tx" where
  "payment h drops = \<lparr> hash = h, TransactionType = ''Payment'', Destination = ''rXYZ'',
     Amount = JSString drops, date = 90 \<rparr>"

text \<open>The service as \<open>start\<close> leaves it when the chain is in the state reached by
  \<open>paid_calls\<close>.\<close>

definition started :: attestor where
  "started =
     (case start test_config (chain_environment (run paid_calls deployed) None) new_attestor of
        Running a \<Rightarrow> a
      | Exited code \<Rightarrow> new_attestor)"

text \<open>The equations of the two index recursions are unfolded only where a proof asks for it.\<close>

declare load_loop.simps [simp del] process_ledgers.simps [simp del]

section \<open>Properties of the contract\<close>

lemmas contract_defs = constructor_def createRequest_def submitPaymentAttestation_def
  cancelRequest_def markExpired_def getRequest_def getTotalRequests_def validRequest_def
  calculateXRPAmount_def checked_mul_def checked_pow_def checked_sub_def checked_div_def
  increment_def UINT256_LIMIT_def onlyOwner_def addAuthorizedAttestor_def
  removeAuthorizedAttestor_def addSupportedAsset_def removeSupportedAsset_def
  updateFtsoRegistry_def transact_def zeroRequest_def

lemmas mock_defs = mock_context_def mock_getCurrentPriceWithDecimals_def MockFtsoRegistry_def

subsection \<open>Price conversion\<close>

lemma calc_xrp: "calculateXRPAmount ctx s ''XRP'' a = Inr a"
  by (simp add: calculateXRPAmount_def)

lemma calc_zero:
  assumes "symbol \<noteq> ''XRP''"
    and "getCurrentPriceWithDecimals ctx (ftsoRegistry s) symbol = Inr (ap, t1, ad)"
    and "getCurrentPriceWithDecimals ctx (ftsoRegistry s) ''XRP'' = Inr (xp, t2, xd)"
    and "ap = 0 \<or> xp = 0"
  shows "calculateXRPAmount ctx s symbol a = Inl (Revert ''Invalid price data'')"
  using assms by (auto simp add: calculateXRPAmount_def)

lemma calc_ok:
  assumes "symbol \<noteq> ''XRP''"
    and "getCurrentPriceWithDecimals ctx (ftsoRegistry s) symbol = Inr (ap, t1, ad)"
    and "getCurrentPriceWithDecimals ctx (ftsoRegistry s) ''XRP'' = Inr (xp, t2, xd)"
    and "0 < ap" "0 < xp"
    and "10 ^ xd < UINT256_LIMIT" "a * ap * 10 ^ xd < UINT256_LIMIT" "xp * 10 ^ ad < UINT256_LIMIT"
  shows "calculateXRPAmount ctx s symbol a = Inr (a * ap * 10 ^ xd div (xp * 10 ^ ad))"
proof -
  have one: "(1::nat) \<le> 10 ^ xd" by simp
  have "a * ap * 1 \<le> a * ap * 10 ^ xd" using one by (rule mult_le_mono2)
  then have "a * ap \<le> a * ap * 10 ^ xd" by simp
  then have p1: "a * ap < UINT256_LIMIT" using assms(7) by (rule le_less_trans)
  have "1 * 10 ^ ad \<le> xp * 10 ^ ad" using assms(5) by (intro mult_le_mono1) simp
  then have "(10::nat) ^ ad \<le> xp * 10 ^ ad" by simp
  then have p3: "(10::nat) ^ ad < UINT256_LIMIT" using assms(8) by (rule le_less_trans)
  show ?thesis
    using assms p1 p3
    by (simp add: calculateXRPAmount_def checked_mul_def checked_pow_def checked_div_def)
qed

lemma calc_overflow:
  assumes "symbol \<noteq> ''XRP''"
    and "getCurrentPriceWithDecimals ctx (ftsoRegistry s) symbol = Inr (ap, t1, ad)"
    and "getCurrentPriceWithDecimals ctx (ftsoRegistry s) ''XRP'' = Inr (xp, t2, xd)"
    and "0 < ap" "0 < xp"
    and "\<not> (10 ^ xd < UINT256_LIMIT \<and> a * ap * 10 ^ xd < UINT256_LIMIT \<and> xp * 10 ^ ad < UINT256_LIMIT)"
  shows "calculateXRPAmount ctx s symbol a = Inl (Panic 17)"
  using assms
  by (auto simp add: calculateXRPAmount_def checked_mul_def checked_pow_def checked_div_def)

text \<open>
  Claim C10, as amended. \<open>calculateXRPAmount\<close> returns the amount unchanged for the symbol
  \<open>XRP\<close>, whatever the registry would answer (it is not consulted). For any other symbol
  for which both registry reads succeed, the call reverts with "Invalid price data" when
  either price is zero; otherwise it returns
  \<open>(a * assetPrice * 10 ^ xrpDecimals) div (xrpPrice * 10 ^ assetDecimals)\<close> provided that
  \<open>10 ^ xrpDecimals\<close>, the numerator and the denominator all fit in 256 bits, and it reverts
  with the arithmetic-overflow panic when one of them does not.
\<close>

theorem calculateXRPAmount_formula:
  "calculateXRPAmount ctx s ''XRP'' a = Inr a \<and>
   (symbol \<noteq> ''XRP'' \<longrightarrow>
    getCurrentPriceWithDecimals ctx (ftsoRegistry s) symbol = Inr (ap, t1, ad) \<longrightarrow>
    getCurrentPriceWithDecimals ctx (ftsoRegistry s) ''XRP'' = Inr (xp, t2, xd) \<longrightarrow>
      (ap = 0 \<or> xp = 0 \<longrightarrow> calculateXRPAmount ctx s symbol a = Inl (Revert ''Invalid price data'')) \<and>
      (0 < ap \<and> 0 < xp \<and> 10 ^ xd < UINT256_LIMIT \<and> a * ap * 10 ^ xd < UINT256_LIMIT
         \<and> xp * 10 ^ ad < UINT256_LIMIT \<longrightarrow>
       calculateXRPAmount ctx s symbol a = Inr (a * ap * 10 ^ xd div (xp * 10 ^ ad))) \<and>
      (0 < ap \<and> 0 < xp \<and> \<not> (10 ^ xd < UINT256_LIMIT \<and> a * ap * 10 ^ xd < UINT256_LIMIT
         \<and> xp * 10 ^ ad < UINT256_LIMIT) \<longrightarrow>
       calculateXRPAmount ctx s symbol a = Inl (Panic 17)))"
proof (intro conjI impI)
  show "calculateXRPAmount ctx s ''XRP'' a = Inr a" by (rule calc_xrp)
next
  assume "symbol \<noteq> ''XRP''"
    "getCurrentPriceWithDecimals ctx (ftsoRegistry s) symbol = Inr (ap, t1, ad)"
    "getCurrentPriceWithDecimals ctx (ftsoRegistry s) ''XRP'' = Inr (xp, t2, xd)"
    "ap = 0 \<or> xp = 0"
  then show "calculateXRPAmount ctx s symbol a = Inl (Revert ''Invalid price data'')"
    by (rule calc_zero)
next
  assume h: "symbol \<noteq> ''XRP''"
    "getCurrentPriceWithDecimals ctx (ftsoRegistry s) symbol = Inr (ap, t1, ad)"
    "getCurrentPriceWithDecimals ctx (ftsoRegistry s) ''XRP'' = Inr (xp, t2, xd)"
  assume "0 < ap \<and> 0 < xp \<and> 10 ^ xd < UINT256_LIMIT \<and> a * ap * 10 ^ xd < UINT256_LIMIT
         \<and> xp * 10 ^ ad < UINT256_LIMIT"
  then have "0 < ap" "0 < xp" "10 ^ xd < UINT256_LIMIT" "a * ap * 10 ^ xd < UINT256_LIMIT"
    "xp * 10 ^ ad < UINT256_LIMIT" by simp_all
  with h show "calculateXRPAmount ctx s symbol a = Inr (a * ap * 10 ^ xd div (xp * 10 ^ ad))"
    by (rule calc_ok)
next
  assume h: "symbol \<noteq> ''XRP''"
    "getCurrentPriceWithDecimals ctx (ftsoRegistry s) symbol = Inr (ap, t1, ad)"
    "getCurrentPriceWithDecimals ctx (ftsoRegistry s) ''XRP'' = Inr (xp, t2, xd)"
  assume "0 < ap \<and> 0 < xp \<and> \<not> (10 ^ xd < UINT256_LIMIT \<and> a * ap * 10 ^ xd < UINT256_LIMIT
         \<and> xp * 10 ^ ad < UINT256_LIMIT)"
  then have "0 < ap" "0 < xp" "\<not> (10 ^ xd < UINT256_LIMIT \<and> a * ap * 10 ^ xd < UINT256_LIMIT
         \<and> xp * 10 ^ ad < UINT256_LIMIT)" by simp_all
  with h show "calculateXRPAmount ctx s symbol a = Inl (Panic 17)"
    by (rule calc_overflow)
qed

theorem calculateXRPAmount_formula_witness:
  "calculateXRPAmount (mock_context 7 100) deployed ''ETH'' (10 ^ 18) = Inr (4000 * 10 ^ 18)"
proof -
  let ?ctx = "mock_context 7 100"
  have a: "getCurrentPriceWithDecimals ?ctx (ftsoRegistry deployed) ''ETH'' = Inr (200000000, 0, 5)"
    by (simp add: mock_defs)
  have x: "getCurrentPriceWithDecimals ?ctx (ftsoRegistry deployed) ''XRP'' = Inr (50000, 0, 5)"
    by (simp add: mock_defs)
  have ne: "''ETH'' \<noteq> ''XRP''" by simp
  have b: "(0::nat) < 200000000 \<and> (0::nat) < 50000 \<and> (10::nat) ^ 5 < UINT256_LIMIT
      \<and> 10 ^ 18 * 200000000 * 10 ^ 5 < UINT256_LIMIT \<and> 50000 * 10 ^ 5 < UINT256_LIMIT"
    by (simp add: UINT256_LIMIT_def)
  note f = calculateXRPAmount_formula [of ?ctx deployed "10 ^ 18" "''ETH''" 200000000 0 5 50000 0 5]
  note g = f [THEN conjunct2, rule_format, OF ne a x]
  have "calculateXRPAmount ?ctx deployed ''ETH'' (10 ^ 18)
      = Inr (10 ^ 18 * 200000000 * 10 ^ 5 div (50000 * 10 ^ 5))"
    by (rule g [THEN conjunct2, THEN conjunct1, rule_format, OF b])
  also have "(10 ^ 18 * 200000000 * 10 ^ 5 div (50000 * 10 ^ 5) :: nat) = 4000 * 10 ^ 18"
    by simp
  finally show ?thesis .
qed

text \<open>
  Claim C10 as stated promises the quotient for every amount. With the prices of the mock
  registry and an amount of \<open>2 ^ 240\<close> the quotient \<open>2 ^ 240 * 4000\<close> fits in 256 bits, but
  the numerator does not, and the checked multiplication reverts.
\<close>

theorem calculateXRPAmount_overflow_counterexample:
  "calculateXRPAmount (mock_context 7 100) deployed ''ETH'' (2 ^ 240) = Inl (Panic 17)
   \<and> getCurrentPriceWithDecimals (mock_context 7 100) (ftsoRegistry deployed) ''ETH'' = Inr (200000000, 0, 5)
   \<and> getCurrentPriceWithDecimals (mock_context 7 100) (ftsoRegistry deployed) ''XRP'' = Inr (50000, 0, 5)
   \<and> (2 ^ 240 * 200000000 * 10 ^ 5) div (50000 * 10 ^ 5) = (2 ^ 240 * 4000 :: nat)
   \<and> (2 ^ 240 * 4000 :: nat) < UINT256_LIMIT"
  by (simp add: contract_defs mock_defs deployed_def)

subsection \<open>The status state machine\<close>

lemma submit_effect:
  assumes "submitPaymentAttestation ctx i h p t s = Inr s'"
  shows "status (requests s i) = PENDING \<and> status (requests s' i) = PAID
       \<and> (\<forall>j. j \<noteq> i \<longrightarrow> requests s' j = requests s j) \<and> requestIds s' = requestIds s
       \<and> creator (requests s' i) = creator (requests s i) \<and> creator (requests s i) \<noteq> 0"
  using assms
  by (auto simp add: submitPaymentAttestation_def validRequest_def Let_def
      split: if_splits option.splits sum.splits)

lemma cancel_effect:
  assumes "cancelRequest ctx i s = Inr s'"
  shows "status (requests s i) = PENDING \<and> status (requests s' i) = CANCELLED
       \<and> (\<forall>j. j \<noteq> i \<longrightarrow> requests s' j = requests s j) \<and> requestIds s' = requestIds s
       \<and> creator (requests s' i) = creator (requests s i) \<and> creator (requests s i) \<noteq> 0"
  using assms
  by (auto simp add: cancelRequest_def validRequest_def Let_def
      split: if_splits option.splits sum.splits)

lemma expire_effect:
  assumes "markExpired ctx i s = Inr s'"
  shows "status (requests s i) = PENDING \<and> status (requests s' i) = EXPIRED
       \<and> (\<forall>j. j \<noteq> i \<longrightarrow> requests s' j = requests s j) \<and> requestIds s' = requestIds s
       \<and> creator (requests s' i) = creator (requests s i) \<and> creator (requests s i) \<noteq> 0"
  using assms
  by (auto simp add: markExpired_def validRequest_def Let_def
      split: if_splits option.splits sum.splits)

lemma admin_effect:
  assumes "\<not> is_create c" "\<not> is_status_call c" "exec_call ctx c s = Inr s'"
  shows "requests s' = requests s \<and> requestIds s' = requestIds s"
  using assms
  by (cases c) (auto simp add: onlyOwner_def addAuthorizedAttestor_def removeAuthorizedAttestor_def
      addSupportedAsset_def removeSupportedAsset_def updateFtsoRegistry_def split: if_splits)

lemma create_effect:
  assumes "createRequest ctx r a n e b m s = Inr (s', newId)"
  shows "newId = increment (requestIds s) \<and> requestIds s' = newId
       \<and> (\<forall>j. j \<noteq> newId \<longrightarrow> requests s' j = requests s j)
       \<and> status (requests s' newId) = PENDING \<and> creator (requests s' newId) = msg_sender ctx"
  using assms
  by (auto simp add: createRequest_def Let_def split: if_splits)

lemma status_call_step:
  assumes "is_status_call c"
  shows "status (requests (transact ctx c s) i) = status (requests s i) \<or> status (requests s i) = PENDING"
proof (cases "exec_call ctx c s")
  case (Inl e)
  then show ?thesis by (simp add: transact_def)
next
  case (Inr s')
  then have t: "transact ctx c s = s'" by (simp add: transact_def)
  have "\<exists>j. (status (requests s j) = PENDING \<and> (\<forall>k. k \<noteq> j \<longrightarrow> requests s' k = requests s k))"
  proof (cases c)
    case (SubmitPaymentAttestation j h p t)
    with Inr show ?thesis using submit_effect [of ctx j h p t s s'] by auto
  next
    case (CancelRequest j)
    with Inr show ?thesis using cancel_effect [of ctx j s s'] by auto
  next
    case (MarkExpired j)
    with Inr show ?thesis using expire_effect [of ctx j s s'] by auto
  qed (use assms in simp_all)
  then obtain j where j: "status (requests s j) = PENDING" "\<forall>k. k \<noteq> j \<longrightarrow> requests s' k = requests s k"
    by blast
  show ?thesis unfolding t using j by (cases "i = j") auto
qed

lemma status_call_run:
  assumes "\<forall>x \<in> set cs. is_status_call (snd x)"
  shows "status (requests (run cs s) i) = status (requests s i) \<or> status (requests s i) = PENDING"
  using assms
proof (induction cs arbitrary: s)
  case Nil
  then show ?case by simp
next
  case (Cons x cs)
  obtain ctx c where x: "x = (ctx, c)" by (cases x)
  from Cons.prems x have c: "is_status_call c" by simp
  from Cons.prems have rest: "\<forall>x \<in> set cs. is_status_call (snd x)" by simp
  from Cons.IH [OF rest, of "transact ctx c s"] status_call_step [OF c, of ctx s i]
  show ?case unfolding x by auto
qed

text \<open>
  Claim C7. A successful \<open>submitPaymentAttestation\<close>, \<open>cancelRequest\<close> or \<open>markExpired\<close>
  on request \<open>i\<close> finds its status \<open>PENDING\<close> and leaves it \<open>PAID\<close>, \<open>CANCELLED\<close> or
  \<open>EXPIRED\<close> respectively, and changes no other request; and over any sequence of such
  transactions (reverted ones included), a request whose status is not \<open>PENDING\<close> keeps
  its status.
\<close>

theorem status_one_way:
  "(submitPaymentAttestation ctx i h p t s = Inr s' \<longrightarrow>
      status (requests s i) = PENDING \<and> status (requests s' i) = PAID
      \<and> (\<forall>j. j \<noteq> i \<longrightarrow> requests s' j = requests s j)) \<and>
   (cancelRequest ctx i s = Inr s' \<longrightarrow>
      status (requests s i) = PENDING \<and> status (requests s' i) = CANCELLED
      \<and> (\<forall>j. j \<noteq> i \<longrightarrow> requests s' j = requests s j)) \<and>
   (markExpired ctx i s = Inr s' \<longrightarrow>
      status (requests s i) = PENDING \<and> status (requests s' i) = EXPIRED
      \<and> (\<forall>j. j \<noteq> i \<longrightarrow> requests s' j = requests s j)) \<and>
   ((\<forall>x \<in> set cs. is_status_call (snd x)) \<longrightarrow> status (requests s k) \<noteq> PENDING \<longrightarrow>
      status (requests (run cs s) k) = status (requests s k))"
proof -
  have paid: "submitPaymentAttestation ctx i h p t s = Inr s' \<longrightarrow>
      status (requests s i) = PENDING \<and> status (requests s' i) = PAID
      \<and> (\<forall>j. j \<noteq> i \<longrightarrow> requests s' j = requests s j)"
    using submit_effect [of ctx i h p t s s'] by simp
  have cancelled: "cancelRequest ctx i s = Inr s' \<longrightarrow>
      status (requests s i) = PENDING \<and> status (requests s' i) = CANCELLED
      \<and> (\<forall>j. j \<noteq> i \<longrightarrow> requests s' j = requests s j)"
    using cancel_effect [of ctx i s s'] by simp
  have expired: "markExpired ctx i s = Inr s' \<longrightarrow>
      status (requests s i) = PENDING \<and> status (requests s' i) = EXPIRED
      \<and> (\<forall>j. j \<noteq> i \<longrightarrow> requests s' j = requests s j)"
    using expire_effect [of ctx i s s'] by simp
  have final: "(\<forall>x \<in> set cs. is_status_call (snd x)) \<longrightarrow> status (requests s k) \<noteq> PENDING \<longrightarrow>
      status (requests (run cs s) k) = status (requests s k)"
    using status_call_run [of cs s k] by auto
  show ?thesis by (rule conjI [OF paid conjI [OF cancelled conjI [OF expired final]]])
qed

theorem status_one_way_witness:
  "(\<exists>s'. submitPaymentAttestation (mock_context 7 100) 1 12345 990000000 90 (run setup_calls deployed) = Inr s'
        \<and> status (requests (run setup_calls deployed) 1) = PENDING \<and> status (requests s' 1) = PAID
        \<and> status (requests (run later_calls s') 1) = PAID)
   \<and> (\<exists>s'. cancelRequest (mock_context 200 20) 2 (run setup_calls deployed) = Inr s'
        \<and> status (requests s' 2) = CANCELLED)
   \<and> (\<exists>s'. markExpired (mock_context 5 60) 3 (run setup_calls deployed) = Inr s'
        \<and> status (requests s' 3) = EXPIRED)"
proof -
  let ?s = "run setup_calls deployed"
  have "isl (submitPaymentAttestation (mock_context 7 100) 1 12345 990000000 90 ?s) = False"
    by (simp add: setup_calls_def deployed_def contract_defs mock_context_def)
  then obtain s1 where s1: "submitPaymentAttestation (mock_context 7 100) 1 12345 990000000 90 ?s = Inr s1"
    by (cases "submitPaymentAttestation (mock_context 7 100) 1 12345 990000000 90 ?s") auto
  have "isl (cancelRequest (mock_context 200 20) 2 ?s) = False"
    by (simp add: setup_calls_def deployed_def contract_defs mock_context_def)
  then obtain s2 where s2: "cancelRequest (mock_context 200 20) 2 ?s = Inr s2"
    by (cases "cancelRequest (mock_context 200 20) 2 ?s") auto
  have "isl (markExpired (mock_context 5 60) 3 ?s) = False"
    by (simp add: setup_calls_def deployed_def contract_defs mock_context_def)
  then obtain s3 where s3: "markExpired (mock_context 5 60) 3 ?s = Inr s3"
    by (cases "markExpired (mock_context 5 60) 3 ?s") auto
  have calls: "\<forall>x \<in> set later_calls. is_status_call (snd x)"
    by (simp add: later_calls_def)
  note a = status_one_way [of "mock_context 7 100" 1 12345 990000000 90 ?s s1 later_calls 1]
  from a s1 have p: "status (requests ?s 1) = PENDING" "status (requests s1 1) = PAID" by simp_all
  note b = status_one_way [of "mock_context 200 20" 2 0 0 0 ?s s2 "[]" 2]
  from b s2 have c: "status (requests s2 2) = CANCELLED" by simp
  note d = status_one_way [of "mock_context 5 60" 3 0 0 0 ?s s3 "[]" 3]
  from d s3 have e: "status (requests s3 3) = EXPIRED" by simp
  note f = status_one_way [of "mock_context 7 100" 1 12345 990000000 90 s1 s1 later_calls 1]
  from f calls p(2) have k: "status (requests (run later_calls s1) 1) = PAID" by simp
  from s1 s2 s3 p c e k show ?thesis by blast
qed

subsection \<open>Request identifiers\<close>

lemma noncreate_step:
  assumes "\<not> is_create c" "exec_call ctx c s = Inr s'" "creator (requests s 0) = 0"
  shows "requestIds s' = requestIds s \<and> creator (requests s' 0) = 0"
proof (cases "is_status_call c")
  case False
  from admin_effect [OF assms(1) False assms(2)] assms(3) show ?thesis by simp
next
  case True
  have "\<exists>j. j \<noteq> 0 \<and> requestIds s' = requestIds s \<and> (\<forall>k. k \<noteq> j \<longrightarrow> requests s' k = requests s k)"
  proof (cases c)
    case (SubmitPaymentAttestation j h p t)
    with assms show ?thesis using submit_effect [of ctx j h p t s s'] by (cases "j = 0") auto
  next
    case (CancelRequest j)
    with assms show ?thesis using cancel_effect [of ctx j s s'] by (cases "j = 0") auto
  next
    case (MarkExpired j)
    with assms show ?thesis using expire_effect [of ctx j s s'] by (cases "j = 0") auto
  qed (use True in simp_all)
  then show ?thesis using assms(3) by auto
qed

lemma create_step:
  assumes "is_create c" "exec_call ctx c s = Inr s'" "requestIds s + 1 < UINT256_LIMIT"
    "creator (requests s 0) = 0"
  shows "requestIds s' = requestIds s + 1 \<and> creator (requests s' 0) = 0"
proof (cases c)
  case (CreateRequest r a n e b m)
  with assms(2) obtain newId where cr: "createRequest ctx r a n e b m s = Inr (s', newId)"
    by (cases "createRequest ctx r a n e b m s") auto
  from assms(3) have inc: "increment (requestIds s) = requestIds s + 1"
    by (simp add: increment_def)
  from create_effect [OF cr] inc assms(4) show ?thesis by simp
qed (use assms(1) in simp_all)

lemma transact_counter:
  assumes "requestIds s + created [(ctx, c)] s < UINT256_LIMIT" "creator (requests s 0) = 0"
  shows "requestIds (transact ctx c s) = requestIds s + created [(ctx, c)] s
       \<and> creator (requests (transact ctx c s) 0) = 0"
proof (cases "exec_call ctx c s")
  case (Inl e)
  then show ?thesis using assms by (simp add: transact_def)
next
  case (Inr s')
  then have t: "transact ctx c s = s'" by (simp add: transact_def)
  show ?thesis
  proof (cases "is_create c")
    case True
    with Inr assms(1) have "requestIds s + 1 < UINT256_LIMIT" by simp
    from create_step [OF True Inr this assms(2)] True Inr show ?thesis unfolding t by simp
  next
    case False
    from noncreate_step [OF False Inr assms(2)] False show ?thesis unfolding t by simp
  qed
qed

lemma run_counter:
  assumes "requestIds s + created cs s < UINT256_LIMIT" "creator (requests s 0) = 0"
  shows "requestIds (run cs s) = requestIds s + created cs s \<and> creator (requests (run cs s) 0) = 0"
  using assms
proof (induction cs arbitrary: s)
  case Nil
  then show ?case by simp
next
  case (Cons x cs)
  obtain ctx c where x: "x = (ctx, c)" by (cases x)
  let ?s = "transact ctx c s"
  from Cons.prems(1) have b1: "requestIds s + created [(ctx, c)] s < UINT256_LIMIT"
    unfolding x by simp
  from transact_counter [OF b1 Cons.prems(2)]
  have step: "requestIds ?s = requestIds s + created [(ctx, c)] s" "creator (requests ?s 0) = 0"
    by auto
  from Cons.prems(1) step(1) have "requestIds ?s + created cs ?s < UINT256_LIMIT"
    unfolding x by simp
  from Cons.IH [OF this step(2)] step(1) show ?case unfolding x by simp
qed

lemma fresh: "requestIds (constructor ctx r) = 0 \<and> creator (requests (constructor ctx r) 0) = 0"
  by (simp add: constructor_def zeroRequest_def)

text \<open>Identifiers above the counter are unwritten slots, and a written slot holds its own
  identifier.\<close>

lemma status_call_slots:
  assumes "is_status_call c" "exec_call ctx c s = Inr s'"
  shows "requestIds s' = requestIds s
    \<and> (\<forall>k. id_req (requests s' k) = id_req (requests s k))
    \<and> (\<forall>k. requestIds s < k \<longrightarrow> requests s' k = requests s k)"
proof (cases c)
  case (SubmitPaymentAttestation i h p t)
  with assms(2) show ?thesis
    by (auto simp add: submitPaymentAttestation_def validRequest_def Let_def
        split: if_splits option.splits sum.splits)
next
  case (CancelRequest i)
  with assms(2) show ?thesis
    by (auto simp add: cancelRequest_def validRequest_def Let_def
        split: if_splits option.splits sum.splits)
next
  case (MarkExpired i)
  with assms(2) show ?thesis
    by (auto simp add: markExpired_def validRequest_def Let_def
        split: if_splits option.splits sum.splits)
qed (use assms(1) in simp_all)

lemma noncreate_slots:
  assumes "\<not> is_create c" "exec_call ctx c s = Inr s'"
  shows "requestIds s' = requestIds s
    \<and> (\<forall>k. id_req (requests s' k) = id_req (requests s k))
    \<and> (\<forall>k. requestIds s < k \<longrightarrow> requests s' k = requests s k)"
proof (cases "is_status_call c")
  case True
  then show ?thesis using assms(2) by (rule status_call_slots)
next
  case False
  from admin_effect [OF assms(1) False assms(2)] show ?thesis by simp
qed

lemma create_stores:
  assumes "createRequest ctx r a n e b m s = Inr (s', newId)"
  shows "requests s' = (requests s)(newId := (requests s newId)
           \<lparr> id_req := newId, creator := msg_sender ctx, recipientXRPL := r, assetSymbol := a,
             assetAmount := n, expiry := e, slippageBp := b, status := PENDING, message := m \<rparr>)
    \<and> userRequests s' (msg_sender ctx) = userRequests s (msg_sender ctx) @ [newId]"
  using assms by (auto simp add: createRequest_def Let_def split: if_splits)

lemma transact_slots:
  assumes "requestIds s + created [(ctx, c)] s < UINT256_LIMIT"
    and "(\<forall>k. requestIds s < k \<longrightarrow> requests s k = zeroRequest)
       \<and> (\<forall>k. 1 \<le> k \<and> k \<le> requestIds s \<longrightarrow> id_req (requests s k) = k)"
  shows "(\<forall>k. requestIds (transact ctx c s) < k \<longrightarrow> requests (transact ctx c s) k = zeroRequest)
       \<and> (\<forall>k. 1 \<le> k \<and> k \<le> requestIds (transact ctx c s) \<longrightarrow> id_req (requests (transact ctx c s) k) = k)"
proof (cases "exec_call ctx c s")
  case (Inl err)
  then show ?thesis using assms(2) by (simp add: transact_def)
next
  case (Inr s')
  then have t: "transact ctx c s = s'" by (simp add: transact_def)
  show ?thesis
  proof (cases "is_create c")
    case False
    from noncreate_slots [OF False Inr] assms(2) show ?thesis unfolding t by simp
  next
    case True
    then obtain r a n e b m where c: "c = CreateRequest r a n e b m" by (cases c) simp_all
    with Inr obtain newId where cr: "createRequest ctx r a n e b m s = Inr (s', newId)"
      by (cases "createRequest ctx r a n e b m s") auto
    from True Inr assms(1) have "requestIds s + 1 < UINT256_LIMIT" by simp
    then have inc: "increment (requestIds s) = requestIds s + 1" by (simp add: increment_def)
    from create_effect [OF cr] inc have n: "newId = requestIds s + 1" "requestIds s' = requestIds s + 1"
      by simp_all
    from create_stores [OF cr] n assms(2) show ?thesis unfolding t by auto
  qed
qed

lemma run_slots:
  assumes "requestIds s + created cs s < UINT256_LIMIT"
    and "creator (requests s 0) = 0"
    and "(\<forall>k. requestIds s < k \<longrightarrow> requests s k = zeroRequest)
       \<and> (\<forall>k. 1 \<le> k \<and> k \<le> requestIds s \<longrightarrow> id_req (requests s k) = k)"
  shows "(\<forall>k. requestIds (run cs s) < k \<longrightarrow> requests (run cs s) k = zeroRequest)
       \<and> (\<forall>k. 1 \<le> k \<and> k \<le> requestIds (run cs s) \<longrightarrow> id_req (requests (run cs s) k) = k)"
  using assms
proof (induction cs arbitrary: s)
  case Nil
  then show ?case by simp
next
  case (Cons x cs)
  obtain ctx c where x: "x = (ctx, c)" by (cases x)
  let ?s = "transact ctx c s"
  from Cons.prems(1) have b1: "requestIds s + created [(ctx, c)] s < UINT256_LIMIT"
    unfolding x by simp
  from transact_counter [OF b1 Cons.prems(2)]
  have step: "requestIds ?s = requestIds s + created [(ctx, c)] s" "creator (requests ?s 0) = 0"
    by auto
  from Cons.prems(1) step(1) have b2: "requestIds ?s + created cs ?s < UINT256_LIMIT"
    unfolding x by simp
  from Cons.IH [OF b2 step(2) transact_slots [OF b1 Cons.prems(3)]] show ?case
    unfolding x by simp
qed

lemma fresh_slots:
  "(\<forall>k. requestIds (constructor ctx r) < k \<longrightarrow> requests (constructor ctx r) k = zeroRequest)
   \<and> (\<forall>k. 1 \<le> k \<and> k \<le> requestIds (constructor ctx r) \<longrightarrow> id_req (requests (constructor ctx r) k) = k)"
  by (simp add: constructor_def)

text \<open>
  Claim C9. In the state reached from a freshly deployed contract by any sequence of
  transactions of which fewer than \<open>2 ^ 256 - 1\<close> were successful \<open>createRequest\<close> calls
  (the counter is a \<open>uint256\<close>), \<open>getTotalRequests\<close> is the number of successful
  \<open>createRequest\<close> calls so far, \<open>getRequest(0)\<close> reverts with "Request does not exist",
  and the request stored under each identifier from 1 to that number carries that identifier.
  The next successful \<open>createRequest\<close> returns that number plus one, which is
  \<open>getTotalRequests\<close> right after it; it stores under that identifier a request with that
  identifier, the caller as creator, the arguments of the call, status \<open>PENDING\<close> and no
  payment data, changes no other request, appends the identifier to the caller's list, and
  \<open>getRequest\<close> of the new identifier returns the stored request. So the n-th successful call
  assigns identifier n.
\<close>

theorem request_ids_start_at_one:
  assumes "created tr (constructor ctx0 reg) + 1 < UINT256_LIMIT"
  shows "getTotalRequests (run tr (constructor ctx0 reg)) = created tr (constructor ctx0 reg)
    \<and> getRequest (run tr (constructor ctx0 reg)) 0 = Inl (Revert ''Request does not exist'')
    \<and> (\<forall>k. 1 \<le> k \<and> k \<le> created tr (constructor ctx0 reg) \<longrightarrow>
          id_req (requests (run tr (constructor ctx0 reg)) k) = k)
    \<and> (\<forall>s' newId. createRequest ctx r a n e b m (run tr (constructor ctx0 reg)) = Inr (s', newId)
         \<longrightarrow> newId = created tr (constructor ctx0 reg) + 1 \<and> getTotalRequests s' = newId
           \<and> getRequest s' 0 = Inl (Revert ''Request does not exist'')
           \<and> requests s' newId = zeroRequest
                \<lparr> id_req := newId, creator := msg_sender ctx, recipientXRPL := r,
                  assetSymbol := a, assetAmount := n, expiry := e, slippageBp := b,
                  status := PENDING, message := m \<rparr>
           \<and> (\<forall>j. j \<noteq> newId \<longrightarrow> requests s' j = requests (run tr (constructor ctx0 reg)) j)
           \<and> userRequests s' (msg_sender ctx)
               = userRequests (run tr (constructor ctx0 reg)) (msg_sender ctx) @ [newId]
           \<and> (msg_sender ctx \<noteq> 0 \<longrightarrow> getRequest s' newId = Inr (requests s' newId)))"
proof -
  let ?init = "constructor ctx0 reg"
  let ?cur = "run tr ?init"
  from assms fresh [of ctx0 reg] have b: "requestIds ?init + created tr ?init < UINT256_LIMIT" by simp
  from run_counter [OF b] fresh [of ctx0 reg]
  have inv: "requestIds ?cur = created tr ?init" "creator (requests ?cur 0) = 0" by auto
  from run_slots [OF b _ fresh_slots] fresh [of ctx0 reg] inv(1)
  have slots: "\<forall>k. created tr ?init < k \<longrightarrow> requests ?cur k = zeroRequest"
    "\<forall>k. 1 \<le> k \<and> k \<le> created tr ?init \<longrightarrow> id_req (requests ?cur k) = k"
    by simp_all
  have g0: "getRequest ?cur 0 = Inl (Revert ''Request does not exist'')"
    using inv(2) by (simp add: getRequest_def validRequest_def)
  have nxt: "newId = created tr ?init + 1 \<and> getTotalRequests s' = newId
      \<and> getRequest s' 0 = Inl (Revert ''Request does not exist'')
      \<and> requests s' newId = zeroRequest
                \<lparr> id_req := newId, creator := msg_sender ctx, recipientXRPL := r,
                  assetSymbol := a, assetAmount := n, expiry := e, slippageBp := b,
                  status := PENDING, message := m \<rparr>
      \<and> (\<forall>j. j \<noteq> newId \<longrightarrow> requests s' j = requests ?cur j)
      \<and> userRequests s' (msg_sender ctx) = userRequests ?cur (msg_sender ctx) @ [newId]
      \<and> (msg_sender ctx \<noteq> 0 \<longrightarrow> getRequest s' newId = Inr (requests s' newId))"
    if cr: "createRequest ctx r a n e b m ?cur = Inr (s', newId)" for s' newId
  proof -
    from assms inv(1) have inc: "increment (requestIds ?cur) = created tr ?init + 1"
      by (simp add: increment_def)
    from create_effect [OF cr] inc inv(2)
    have basic: "newId = created tr ?init + 1" "requestIds s' = newId" "creator (requests s' 0) = 0"
      "\<forall>j. j \<noteq> newId \<longrightarrow> requests s' j = requests ?cur j"
      by auto
    from slots(1) basic(1) have empty: "requests ?cur newId = zeroRequest" by simp
    from create_stores [OF cr] empty
    have stored: "requests s' newId = zeroRequest
                \<lparr> id_req := newId, creator := msg_sender ctx, recipientXRPL := r,
                  assetSymbol := a, assetAmount := n, expiry := e, slippageBp := b,
                  status := PENDING, message := m \<rparr>"
      "userRequests s' (msg_sender ctx) = userRequests ?cur (msg_sender ctx) @ [newId]"
      by simp_all
    have got: "msg_sender ctx \<noteq> 0 \<longrightarrow> getRequest s' newId = Inr (requests s' newId)"
      using basic(2) stored(1) by (simp add: getRequest_def validRequest_def)
    from basic stored got show ?thesis
      by (simp add: getTotalRequests_def getRequest_def validRequest_def)
  qed
  show ?thesis using inv(1) g0 slots(2) nxt by (simp add: getTotalRequests_def)
qed

lemma created_setup: "created setup_calls deployed = 3"
  by (simp add: setup_calls_def deployed_def contract_defs mock_context_def)

theorem request_ids_start_at_one_witness:
  "created setup_calls (constructor (mock_context 1 0) 99) + 1 < UINT256_LIMIT
   \<and> getTotalRequests (run setup_calls (constructor (mock_context 1 0) 99)) = 3
   \<and> getRequest (run setup_calls (constructor (mock_context 1 0) 99)) 0
       = Inl (Revert ''Request does not exist'')
   \<and> map (\<lambda>k. id_req (requests (run setup_calls (constructor (mock_context 1 0) 99)) k)) [1, 2, 3]
       = [1, 2, 3]
   \<and> (\<exists>s'. createRequest (mock_context 200 13) ''rXYZ'' ''XRP'' 5 5000 0 ''fourth''
         (run setup_calls (constructor (mock_context 1 0) 99)) = Inr (s', 4)
        \<and> getTotalRequests s' = 4
        \<and> getRequest s' 4 = Inr \<lparr> id_req = 4, creator = 200, recipientXRPL = ''rXYZ'',
             assetSymbol = ''XRP'', assetAmount = 5, expiry = 5000, slippageBp = 0,
             status = PENDING, paidTxHash = 0, paidAmount = 0, paidTimestamp = 0,
             message = ''fourth'' \<rparr>)"
proof -
  let ?init = "constructor (mock_context 1 0) 99"
  let ?cur = "run setup_calls ?init"
  let ?ctx = "mock_context 200 13"
  have c: "created setup_calls ?init = 3"
    using created_setup by (simp add: deployed_def)
  have h: "created setup_calls ?init + 1 < UINT256_LIMIT"
    unfolding c by (simp add: UINT256_LIMIT_def)
  note t = request_ids_start_at_one [OF h, of ?ctx "''rXYZ''" "''XRP''" 5 5000 0 "''fourth''"]
  have ok: "isl (createRequest ?ctx ''rXYZ'' ''XRP'' 5 5000 0 ''fourth'' ?cur) = False"
    by (simp add: setup_calls_def contract_defs mock_context_def)
  then obtain s' newId where
    cr: "createRequest ?ctx ''rXYZ'' ''XRP'' 5 5000 0 ''fourth'' ?cur = Inr (s', newId)"
    by (cases "createRequest ?ctx ''rXYZ'' ''XRP'' 5 5000 0 ''fourth'' ?cur") auto
  have sender: "msg_sender ?ctx = 200" by (simp add: mock_context_def)
  from t cr have n: "newId = created setup_calls ?init + 1" by blast
  with c have four: "newId = 4" by simp
  from t cr have facts: "getTotalRequests s' = newId"
    "requests s' newId = zeroRequest
       \<lparr> id_req := newId, creator := msg_sender ?ctx, recipientXRPL := ''rXYZ'',
         assetSymbol := ''XRP'', assetAmount := 5, expiry := 5000, slippageBp := 0,
         status := PENDING, message := ''fourth'' \<rparr>"
    "msg_sender ?ctx \<noteq> 0 \<longrightarrow> getRequest s' newId = Inr (requests s' newId)"
    by blast+
  from facts four sender have ex: "\<exists>s'. createRequest ?ctx ''rXYZ'' ''XRP'' 5 5000 0 ''fourth'' ?cur = Inr (s', 4)
        \<and> getTotalRequests s' = 4
        \<and> getRequest s' 4 = Inr \<lparr> id_req = 4, creator = 200, recipientXRPL = ''rXYZ'',
             assetSymbol = ''XRP'', assetAmount = 5, expiry = 5000, slippageBp = 0,
             status = PENDING, paidTxHash = 0, paidAmount = 0, paidTimestamp = 0,
             message = ''fourth'' \<rparr>"
    using cr by (auto simp add: zeroRequest_def)
  from t c have first: "getTotalRequests ?cur = 3"
    "getRequest ?cur 0 = Inl (Revert ''Request does not exist'')" by simp_all
  from t c have "\<forall>k. 1 \<le> k \<and> k \<le> 3 \<longrightarrow> id_req (requests ?cur k) = k" by simp
  then have ids: "map (\<lambda>k. id_req (requests ?cur k)) [1, 2, 3] = [1, 2, 3]" by simp
  from h first ids ex show ?thesis by simp
qed

section \<open>Properties of the attestor service\<close>

lemma request_one:
  "requests (run setup_calls deployed) 1 =
     \<lparr> id_req = 1, creator = 200, recipientXRPL = ''rXYZ'', assetSymbol = ''XRP'',
       assetAmount = 1000000000, expiry = 5000, slippageBp = 100, status = PENDING,
       paidTxHash = 0, paidAmount = 0, paidTimestamp = 0, message = ''first'' \<rparr>"
  by (simp add: setup_calls_def deployed_def contract_defs mock_context_def)

subsection \<open>Initialisation\<close>

lemma initializeFlare_missing:
  assumes "falsy (privateKey cfg) \<or> falsy (requestManagerAddress cfg)"
  shows "\<exists>m. initializeFlare cfg env a = Inl (Error m)"
  using assms by (auto simp add: initializeFlare_def)

lemma initializeFlare_present:
  assumes "\<not> falsy (privateKey cfg)" "\<not> falsy (requestManagerAddress cfg)"
  shows "initializeFlare cfg env a \<noteq> Inl (Error m)"
  using assms
  by (cases "privateKey cfg"; cases "requestManagerAddress cfg")
     (auto simp add: initializeFlare_def split: option.splits)

lemma start_missing:
  assumes "falsy (privateKey cfg) \<or> falsy (requestManagerAddress cfg)"
  shows "start cfg env a = Exited 1"
proof (cases "initializeXRPL env a")
  case (Inl e)
  then show ?thesis by (simp add: start_def initialize_def)
next
  case (Inr a1)
  from initializeFlare_missing [OF assms, of env a1] obtain m where
    "initializeFlare cfg env a1 = Inl (Error m)" by blast
  with Inr show ?thesis by (simp add: start_def initialize_def)
qed

lemma start_present:
  assumes "\<not> falsy (privateKey cfg)" "\<not> falsy (requestManagerAddress cfg)"
    and "start cfg env a = Exited n"
  shows "n = 1 \<and> (xrpl_connect env \<noteq> None \<or> isl (server_info env)
      \<or> (\<exists>k d. privateKey cfg = Some k \<and> requestManagerAddress cfg = Some d \<and> ethers_connect env k d \<noteq> None)
      \<or> isl (contract_getTotalRequests env))"
  using assms
  by (cases "privateKey cfg"; cases "requestManagerAddress cfg")
     (auto simp add: start_def initialize_def initializeXRPL_def initializeFlare_def
        loadPendingRequests_def Let_def split: option.splits sum.splits if_splits)

text \<open>
  Claim C8. When the signing key or the contract address is absent from the configuration
  (undefined or empty), \<open>start\<close> ends the process with exit code 1, whatever the two clients
  answer. When both are present, \<open>initializeFlare\<close> never raises one of its own errors, and
  \<open>start\<close> ends the process only if the ledger connection, the ledger's \<open>server_info\<close>,
  the construction of the wallet and contract objects, or the first \<open>getTotalRequests\<close>
  call throws.
\<close>

theorem missing_configuration_is_fatal:
  "(falsy (privateKey cfg) \<or> falsy (requestManagerAddress cfg) \<longrightarrow> start cfg env a = Exited 1)
   \<and> (\<not> falsy (privateKey cfg) \<and> \<not> falsy (requestManagerAddress cfg) \<longrightarrow>
        (\<forall>a1 m. initializeFlare cfg env a1 \<noteq> Inl (Error m))
        \<and> (\<forall>n. start cfg env a = Exited n \<longrightarrow>
             xrpl_connect env \<noteq> None \<or> isl (server_info env)
             \<or> (\<exists>k d. privateKey cfg = Some k \<and> requestManagerAddress cfg = Some d
                   \<and> ethers_connect env k d \<noteq> None)
             \<or> isl (contract_getTotalRequests env)))"
proof -
  have fatal: "falsy (privateKey cfg) \<or> falsy (requestManagerAddress cfg) \<longrightarrow> start cfg env a = Exited 1"
    using start_missing [of cfg env a] by simp
  have other: "\<not> falsy (privateKey cfg) \<and> \<not> falsy (requestManagerAddress cfg) \<longrightarrow>
        (\<forall>a1 m. initializeFlare cfg env a1 \<noteq> Inl (Error m))
        \<and> (\<forall>n. start cfg env a = Exited n \<longrightarrow>
             xrpl_connect env \<noteq> None \<or> isl (server_info env)
             \<or> (\<exists>k d. privateKey cfg = Some k \<and> requestManagerAddress cfg = Some d
                   \<and> ethers_connect env k d \<noteq> None)
             \<or> isl (contract_getTotalRequests env))"
    using initializeFlare_present [of cfg env] start_present [of cfg env a] by blast
  show ?thesis by (rule conjI [OF fatal other])
qed

theorem missing_configuration_is_fatal_witness:
  "start (test_config \<lparr> privateKey := None \<rparr>) (chain_environment deployed None) new_attestor = Exited 1
   \<and> start (test_config \<lparr> requestManagerAddress := Some [] \<rparr>) (chain_environment deployed None) new_attestor = Exited 1
   \<and> (\<forall>n. start test_config (chain_environment deployed None) new_attestor \<noteq> Exited n)"
proof -
  let ?env = "chain_environment deployed None"
  have k: "falsy (privateKey (test_config \<lparr> privateKey := None \<rparr>))" by simp
  have d: "falsy (requestManagerAddress (test_config \<lparr> requestManagerAddress := Some [] \<rparr>))" by simp
  have p: "\<not> falsy (privateKey test_config) \<and> \<not> falsy (requestManagerAddress test_config)"
    by (simp add: test_config_def)
  have up: "xrpl_connect ?env = None" "\<not> isl (server_info ?env)"
    "ethers_connect ?env = (\<lambda>_ _. None)" "\<not> isl (contract_getTotalRequests ?env)"
    by (simp_all add: chain_environment_def)
  note t1 = missing_configuration_is_fatal [of "test_config \<lparr> privateKey := None \<rparr>" ?env new_attestor]
  note t2 = missing_configuration_is_fatal [of "test_config \<lparr> requestManagerAddress := Some [] \<rparr>" ?env new_attestor]
  note t3 = missing_configuration_is_fatal [of test_config ?env new_attestor]
  from t1 k have a: "start (test_config \<lparr> privateKey := None \<rparr>) ?env new_attestor = Exited 1" by blast
  from t2 d have b: "start (test_config \<lparr> requestManagerAddress := Some [] \<rparr>) ?env new_attestor = Exited 1" by blast
  from t3 p up have c: "\<forall>n. start test_config ?env new_attestor \<noteq> Exited n" by auto
  from a b c show ?thesis by blast
qed

subsection \<open>The matcher\<close>

text \<open>The right operand of the strict comparison is a \<open>BigNumber\<close> object and the left one a
  string or another object, so the comparison is false and \<open>matchesRequest\<close> accepts no
  pair. The loop over the cached requests therefore changes nothing.\<close>

lemma strict_equals_BigNumber: "strict_equals v (JSBigNumber n) = False"
  by (cases v) simp_all

lemma matchesRequest_never: "\<not> matchesRequest tx request"
  by (simp add: matchesRequest_def strict_equals_BigNumber)

lemma check_entries_unchanged: "check_entries env tx es a = a"
proof (induction es arbitrary: a)
  case Nil
  show ?case by simp
next
  case (Cons e es)
  obtain requestId request where e: "e = (requestId, request)" by (cases e)
  show ?case unfolding e using Cons.IH [of a] by (simp add: matchesRequest_never)
qed

lemma checkPaymentTransaction_unchanged: "checkPaymentTransaction env tx a = a"
  by (simp add: checkPaymentTransaction_def check_entries_unchanged)

lemma minAcceptable_xrp:
  assumes "assetSymbol r = ''XRP''" "slippageBp r \<le> 10000"
    "assetAmount r * (10000 - slippageBp r) < UINT256_LIMIT"
  shows "minAcceptableAmount ctx s r = Inr (assetAmount r * (10000 - slippageBp r) div 10000)"
  using assms
  by (simp add: minAcceptableAmount_def calculateXRPAmount_def checked_sub_def checked_mul_def)

text \<open>\<open>minAcceptableAmount\<close> is the bound that \<open>submitPaymentAttestation\<close> enforces.\<close>

lemma submit_requires_min:
  assumes "submitPaymentAttestation ctx i h p t s = Inr s'"
  shows "\<exists>m. minAcceptableAmount ctx s (requests s i) = Inr m \<and> m \<le> p"
  using assms
  by (auto simp add: submitPaymentAttestation_def minAcceptableAmount_def Let_def
      split: if_splits option.splits sum.splits)

lemma drops_examples:
  "drops_of (JSString ''990000000'') = Some 990000000"
  "drops_of (JSString ''989990000'') = Some 989990000"
  "drops_of (JSString ''1000000000'') = Some 1000000000"
  by (simp_all add: digit_value_def)

text \<open>
  Claim C1 does not hold of the code. Request 1 of the deployment asks for 1,000 XRP
  (1,000,000,000 drops) at recipient \<open>rXYZ\<close> with a slippage of 100 basis points, so the
  smallest amount the contract accepts is 990 XRP. A payment of exactly 990 XRP to \<open>rXYZ\<close>
  satisfies the predicate of the specification, the contract accepts an attestation of it,
  and \<open>matchesRequest\<close> rejects it. A payment of 989.99 XRP is rejected by both, and
  \<open>matchesRequest\<close> rejects even a payment of the full 1,000 XRP.
\<close>

theorem matchesRequest_rejects_payment_within_slippage:
  "minAcceptableAmount (mock_context 7 100) (run setup_calls deployed)
       (requests (run setup_calls deployed) 1) = Inr 990000000
   \<and> matchesRequest_spec (mock_context 7 100) (run setup_calls deployed)
        (payment ''A1'' ''990000000'') (requests (run setup_calls deployed) 1)
   \<and> \<not> matchesRequest (payment ''A1'' ''990000000'') (requests (run setup_calls deployed) 1)
   \<and> \<not> isl (submitPaymentAttestation (mock_context 7 100) 1 12345 990000000 90
            (run setup_calls deployed))
   \<and> \<not> matchesRequest_spec (mock_context 7 100) (run setup_calls deployed)
        (payment ''A2'' ''989990000'') (requests (run setup_calls deployed) 1)
   \<and> \<not> matchesRequest (payment ''A2'' ''989990000'') (requests (run setup_calls deployed) 1)
   \<and> \<not> matchesRequest (payment ''A0'' ''1000000000'') (requests (run setup_calls deployed) 1)"
proof -
  have accepted: "\<not> isl (submitPaymentAttestation (mock_context 7 100) 1 12345 990000000 90
      (run setup_calls deployed))"
    by (simp add: setup_calls_def deployed_def contract_defs mock_context_def)
  have rest: "minAcceptableAmount (mock_context 7 100) (run setup_calls deployed)
       (requests (run setup_calls deployed) 1) = Inr 990000000
   \<and> matchesRequest_spec (mock_context 7 100) (run setup_calls deployed)
        (payment ''A1'' ''990000000'') (requests (run setup_calls deployed) 1)
   \<and> \<not> matchesRequest (payment ''A1'' ''990000000'') (requests (run setup_calls deployed) 1)
   \<and> \<not> matchesRequest_spec (mock_context 7 100) (run setup_calls deployed)
        (payment ''A2'' ''989990000'') (requests (run setup_calls deployed) 1)
   \<and> \<not> matchesRequest (payment ''A2'' ''989990000'') (requests (run setup_calls deployed) 1)
   \<and> \<not> matchesRequest (payment ''A0'' ''1000000000'') (requests (run setup_calls deployed) 1)"
    using request_one drops_examples
    by (simp add: payment_def matchesRequest_def matchesRequest_spec_def
        minAcceptableAmount_def calculateXRPAmount_def checked_sub_def checked_mul_def
        UINT256_LIMIT_def)
  from accepted rest show ?thesis by simp
qed

subsection \<open>Processing transactions\<close>

lemma processTransaction_eq:
  "processTransaction env tx a =
     (if hash tx \<in> processedTransactions a then a
      else a \<lparr> processedTransactions := insert (hash tx) (processedTransactions a) \<rparr>)"
  by (simp add: processTransaction_def checkPaymentTransaction_unchanged)

lemma processTransaction_keeps:
  "pendingRequests (processTransaction env tx a) = pendingRequests a
   \<and> submitted (processTransaction env tx a) = submitted a"
  by (simp add: processTransaction_eq)





lemma started_state:
  "started = new_attestor \<lparr> wallet := Some ''0xkey'', requestManagerContract := Some ''0xaddr'',
      isRunning := True, lastProcessedLedger := Some 100,
      pendingRequests := [(1, requests (run paid_calls deployed) 1)] \<rparr>"
  by (simp add: started_def start_def initialize_def initializeXRPL_def initializeFlare_def
      loadPendingRequests_def load_loop.simps load_request_def chain_environment_def
      test_config_def new_attestor_def Let_def
      paid_calls_def setup_calls_def deployed_def contract_defs mock_context_def)



lemma processTransaction_marks:
  "hash tx \<in> processedTransactions (processTransaction env tx a)"
  by (simp add: processTransaction_eq)

lemma processTransaction_seen:
  "hash tx \<in> processedTransactions a \<Longrightarrow> processTransaction env tx a = a"
  by (simp add: processTransaction_def)

text \<open>
  Claim C4. Processing a transaction whose hash is in the processed set changes nothing: no
  attestation call, no change to the cache. Of two transactions with the same hash the second
  one changes nothing, so processing both is processing the first; and processing a
  transaction makes no attestation call, so the two together yield at most one.
\<close>

theorem reprocessing_is_a_no_op:
  "(hash tx \<in> processedTransactions a \<longrightarrow> processTransaction env tx a = a)
   \<and> (hash tx' = hash tx \<longrightarrow>
        processTransaction env' tx' (processTransaction env tx a) = processTransaction env tx a)
   \<and> (hash tx' = hash tx \<longrightarrow>
        process_transactions env [tx, tx'] a = processTransaction env tx a)
   \<and> submitted (processTransaction env tx a) = submitted a
   \<and> (hash tx' = hash tx \<longrightarrow>
        length (submitted (process_transactions env [tx, tx'] a)) \<le> length (submitted a) + 1)"
proof -
  have a: "hash tx \<in> processedTransactions a \<longrightarrow> processTransaction env tx a = a"
    using processTransaction_seen [of tx a env] by simp
  have again: "processTransaction e tx' (processTransaction env tx a) = processTransaction env tx a"
    if "hash tx' = hash tx" for e
  proof -
    from that processTransaction_marks [of tx env a]
    have "hash tx' \<in> processedTransactions (processTransaction env tx a)" by simp
    then show ?thesis by (rule processTransaction_seen)
  qed
  have b: "hash tx' = hash tx \<longrightarrow>
        processTransaction env' tx' (processTransaction env tx a) = processTransaction env tx a"
    using again [of env'] by simp
  have c: "hash tx' = hash tx \<longrightarrow> process_transactions env [tx, tx'] a = processTransaction env tx a"
    using again [of env] by simp
  have d: "submitted (processTransaction env tx a) = submitted a"
    by (simp add: processTransaction_keeps)
  have e: "hash tx' = hash tx \<longrightarrow>
        length (submitted (process_transactions env [tx, tx'] a)) \<le> length (submitted a) + 1"
    using c d by simp
  show ?thesis by (rule conjI [OF a conjI [OF b conjI [OF c conjI [OF d e]]]])
qed

theorem reprocessing_is_a_no_op_witness:
  "hash (payment ''C0'' ''1000000000'') \<in> processedTransactions
      (processTransaction (chain_environment (run paid_calls deployed) None)
         (payment ''C0'' ''1000000000'') started)
   \<and> processTransaction (chain_environment (run paid_calls deployed) None)
        (payment ''C0'' ''1000000000'')
        (processTransaction (chain_environment (run paid_calls deployed) None)
           (payment ''C0'' ''1000000000'') started)
      = processTransaction (chain_environment (run paid_calls deployed) None)
           (payment ''C0'' ''1000000000'') started
   \<and> submitted (process_transactions (chain_environment (run paid_calls deployed) None)
        [payment ''C0'' ''1000000000'', payment ''C0'' ''1000000000''] started) = []"
proof -
  let ?env = "chain_environment (run paid_calls deployed) None"
  let ?tx = "payment ''C0'' ''1000000000''"
  let ?once = "processTransaction ?env ?tx started"
  have seen: "hash ?tx \<in> processedTransactions ?once"
    by (simp add: processTransaction_def Let_def)
  have same: "hash ?tx = hash ?tx" by simp
  note t = reprocessing_is_a_no_op [of ?tx ?once ?env ?tx ?env]
  note u = reprocessing_is_a_no_op [of ?tx started ?env ?tx ?env]
  from t seen have again: "processTransaction ?env ?tx ?once = ?once" by blast
  from u same have "process_transactions ?env [?tx, ?tx] started = ?once" by blast
  moreover from u have "submitted ?once = submitted started" by blast
  moreover have "submitted started = []" by (simp add: started_state new_attestor_def)
  ultimately have none: "submitted (process_transactions ?env [?tx, ?tx] started) = []" by simp
  from seen again none show ?thesis by blast
qed

subsection \<open>The ledger watermark\<close>

lemma watermark_after:
  "lastProcessedLedger (checkXRPLTransactions env a) =
     (case server_info env of Inl e \<Rightarrow> lastProcessedLedger a | Inr cur \<Rightarrow> Some cur)"
  by (simp add: checkXRPLTransactions_def Let_def split: sum.splits)

text \<open>
  Claim C6, as amended. After a polling tick of a running service the watermark is the
  validated ledger index that the ledger client reported in that tick, and it is unchanged
  when the query failed or the service is stopped. So the watermark does not decrease in a
  tick unless the client reports an index below it.
\<close>

theorem watermark_follows_validated_ledger:
  "lastProcessedLedger (xrplMonitoringTick env a) =
     (if isRunning a then (case server_info env of Inl e \<Rightarrow> lastProcessedLedger a | Inr cur \<Rightarrow> Some cur)
      else lastProcessedLedger a)
   \<and> (lastProcessedLedger a = Some w \<longrightarrow> (\<forall>cur. server_info env = Inr cur \<longrightarrow> w \<le> cur) \<longrightarrow>
        (\<exists>w'. lastProcessedLedger (xrplMonitoringTick env a) = Some w' \<and> w \<le> w'))"
  by (auto simp add: xrplMonitoringTick_def watermark_after split: sum.splits)

theorem watermark_follows_validated_ledger_witness:
  "lastProcessedLedger (xrplMonitoringTick (chain_environment deployed None)
      (new_attestor \<lparr> isRunning := True, lastProcessedLedger := Some 97 \<rparr>)) = Some 100"
proof -
  let ?env = "chain_environment deployed None"
  let ?a = "new_attestor \<lparr> isRunning := True, lastProcessedLedger := Some 97 \<rparr>"
  have w: "lastProcessedLedger ?a = Some 97" by simp
  have s: "server_info ?env = Inr 100" by (simp add: chain_environment_def)
  then have le: "\<forall>cur. server_info ?env = Inr cur \<longrightarrow> 97 \<le> cur" by simp
  from watermark_follows_validated_ledger [of ?env ?a 97] w le
  obtain w' where "lastProcessedLedger (xrplMonitoringTick ?env ?a) = Some w'" by blast
  moreover from watermark_follows_validated_ledger [of ?env ?a 97] s
  have "lastProcessedLedger (xrplMonitoringTick ?env ?a) = Some 100" by simp
  ultimately show ?thesis by simp
qed

text \<open>
  Claim C6 as stated includes a tick that reports a lower index: with the watermark at 100
  and a reported index of 90 the watermark becomes 90.
\<close>

theorem watermark_decreases_counterexample:
  "lastProcessedLedger (new_attestor \<lparr> isRunning := True, lastProcessedLedger := Some 100 \<rparr>) = Some 100
   \<and> lastProcessedLedger (xrplMonitoringTick (chain_environment deployed None \<lparr> server_info := Inr 90 \<rparr>)
        (new_attestor \<lparr> isRunning := True, lastProcessedLedger := Some 100 \<rparr>)) = Some 90"
  by (simp add: xrplMonitoringTick_def checkXRPLTransactions_def)

subsection \<open>Loading requests from the contract\<close>

text \<open>Each of the two read passes stores a request only when the contract reports it as \<open>PAID\<close> (status
  code 1), and only under an index below the total number of requests.\<close>

lemma status_code_one: "status_code st = Suc 0 \<longleftrightarrow> st = PAID"
  by (cases st) simp_all

lemma Map_set_entries: "set (Map_set k v entries) \<subseteq> insert (k, v) (set entries)"
  by (induction entries) (auto split: if_splits)

lemma load_request_entries:
  assumes "e \<in> set (load_request env i cache)"
  shows "e \<in> set cache \<or> (fst e = i \<and> contract_getRequest env i = Inr (snd e) \<and> status (snd e) = PAID)"
proof (cases "contract_getRequest env i")
  case (Inl m)
  with assms show ?thesis by (simp add: load_request_def)
next
  case (Inr request)
  show ?thesis
  proof (cases "status_code (status request) = 1")
    case False
    with Inr assms show ?thesis by (simp add: load_request_def)
  next
    case True
    with Inr assms have "e \<in> set (Map_set i request cache)" by (simp add: load_request_def)
    with Map_set_entries [of i request cache] have "e = (i, request) \<or> e \<in> set cache" by auto
    with True Inr show ?thesis by (auto simp add: status_code_one)
  qed
qed

lemma load_loop_entries:
  assumes "e \<in> set (load_loop env i stop cache)"
  shows "e \<in> set cache
     \<or> (i \<le> fst e \<and> fst e < stop \<and> contract_getRequest env (fst e) = Inr (snd e) \<and> status (snd e) = PAID)"
  using assms
proof (induction env i stop cache rule: load_loop.induct)
  case (1 env i stop cache)
  show ?case
  proof (cases "i < stop")
    case False
    with "1.prems" show ?thesis by (simp add: load_loop.simps)
  next
    case True
    with "1.prems" have "e \<in> set (load_loop env (Suc i) stop (load_request env i cache))"
      by (simp add: load_loop.simps)
    from "1.IH" [OF True this]
    consider "e \<in> set (load_request env i cache)"
      | "Suc i \<le> fst e \<and> fst e < stop \<and> contract_getRequest env (fst e) = Inr (snd e) \<and> status (snd e) = PAID"
      by blast
    then show ?thesis
    proof cases
      case 1
      from load_request_entries [OF 1] True show ?thesis by auto
    next
      case 2
      then show ?thesis by auto
    qed
  qed
qed

lemma chain_getRequest:
  "contract_getRequest (chain_environment s outcome) k = Inr r \<longleftrightarrow> getRequest s k = Inr r"
  by (auto simp add: chain_environment_def split: sum.splits error.splits)

lemma load_only_paid:
  assumes "loadPendingRequests cfg (chain_environment s outcome) new_attestor = Inr a"
    and "(k, r) \<in> set (pendingRequests a)"
  shows "k < getTotalRequests s \<and> getRequest s k = Inr r \<and> status r = PAID"
proof -
  let ?env = "chain_environment s outcome"
  have total: "contract_getTotalRequests ?env = Inr (getTotalRequests s)"
    by (simp add: chain_environment_def)
  from assms(1) total obtain start where
    "pendingRequests a = load_loop ?env start (getTotalRequests s) []"
    by (auto simp add: loadPendingRequests_def Let_def new_attestor_def)
  with assms(2) load_loop_entries [of "(k, r)" ?env start "getTotalRequests s" "[]"]
  show ?thesis by (simp add: chain_getRequest)
qed

lemma refresh_only_paid:
  assumes "(k, r) \<in> set (pendingRequests (requestMonitoringTick (chain_environment s outcome) a))"
  shows "(k, r) \<in> set (pendingRequests a)
     \<or> (k < getTotalRequests s \<and> getRequest s k = Inr r \<and> status r = PAID)"
proof (cases "isRunning a")
  case False
  with assms show ?thesis by (simp add: requestMonitoringTick_def)
next
  case True
  let ?env = "chain_environment s outcome"
  have total: "contract_getTotalRequests ?env = Inr (getTotalRequests s)"
    by (simp add: chain_environment_def)
  from assms True total
  have "(k, r) \<in> set (load_loop ?env (length (pendingRequests a)) (getTotalRequests s) (pendingRequests a))"
    by (simp add: requestMonitoringTick_def)
  from load_loop_entries [OF this] show ?thesis by (auto simp add: chain_getRequest)
qed

text \<open>
  Claim C3 does not hold of the code. The contract holds three requests: request 1 is
  \<open>PAID\<close>, requests 2 and 3 are \<open>PENDING\<close>. The initial load with batch size 10 reads the
  indices 0, 1 and 2 and tests the status against 1, so the cache afterwards holds request 1
  only.
\<close>

theorem loadPendingRequests_caches_paid_not_pending:
  "getTotalRequests (run paid_calls deployed) = 3
   \<and> map (\<lambda>i. map_sum (\<lambda>e. e) status (getRequest (run paid_calls deployed) i)) [0, 1, 2, 3]
      = [Inl (Revert ''Request does not exist''), Inr PAID, Inr PENDING, Inr PENDING]
   \<and> map_sum (\<lambda>e. e) (\<lambda>a. map fst (pendingRequests a))
        (loadPendingRequests test_config (chain_environment (run paid_calls deployed) None) new_attestor)
      = Inr [1]"
  by (simp add: paid_calls_def setup_calls_def deployed_def contract_defs mock_context_def
      loadPendingRequests_def load_loop.simps load_request_def chain_environment_def
      new_attestor_def test_config_def Let_def)

text \<open>
  Claim C5 does not hold of the code. With an empty cache and the same three requests on
  the chain, a refresh tick reads the indices 0, 1 and 2: it never reads request 3, it skips
  the pending request 2, and it stores the paid request 1.
\<close>

theorem requestMonitoringTick_skips_pending_requests:
  "getTotalRequests (run paid_calls deployed) = 3
   \<and> map (\<lambda>i. map_sum (\<lambda>e. e) status (getRequest (run paid_calls deployed) i)) [0, 1, 2, 3]
      = [Inl (Revert ''Request does not exist''), Inr PAID, Inr PENDING, Inr PENDING]
   \<and> map fst (pendingRequests (requestMonitoringTick
        (chain_environment (run paid_calls deployed) None)
        (new_attestor \<lparr> isRunning := True \<rparr>))) = [1]"
  by (simp add: paid_calls_def setup_calls_def deployed_def contract_defs mock_context_def
      requestMonitoringTick_def load_loop.simps load_request_def chain_environment_def
      new_attestor_def Let_def)

end
